theory Spec2Isabelle
  imports Main "HOL-Library.Word"
begin

unbundle bit_operations_syntax

section \<open>The OV7670 driver (adafruit\_ov7670.py)\<close>

text \<open>
  A shallow embedding of the CircuitPython driver. Python integers are \<open>int\<close>; the
  bitwise operators of the source (\<open>&\<close>, \<open>|\<close>, \<open>~\<close>, \<open><<\<close>, \<open>>>\<close>) are
  \<open>AND\<close>, \<open>OR\<close>, \<open>NOT\<close>, \<open>push_bit\<close> and \<open>drop_bit\<close> on \<open>int\<close>, which agree with
  Python on negative numbers as well. The sensor is a register file of bytes behind the
  control bus; every exception of the source is an error value, returned together with
  the state the driver and the sensor are left in.
\<close>

subsection \<open>Module constants\<close>

named_theorems ov_consts \<open>the numeric constants of the module\<close>

definition OV7670_COLOR_RGB :: int where [ov_consts]: "OV7670_COLOR_RGB = 0"
definition OV7670_COLOR_YUV :: int where [ov_consts]: "OV7670_COLOR_YUV = 1"
definition OV7670_SIZE_DIV1 :: int where [ov_consts]: "OV7670_SIZE_DIV1 = 0"
definition OV7670_SIZE_DIV2 :: int where [ov_consts]: "OV7670_SIZE_DIV2 = 1"
definition OV7670_SIZE_DIV4 :: int where [ov_consts]: "OV7670_SIZE_DIV4 = 2"
definition OV7670_SIZE_DIV8 :: int where [ov_consts]: "OV7670_SIZE_DIV8 = 3"
definition OV7670_SIZE_DIV16 :: int where [ov_consts]: "OV7670_SIZE_DIV16 = 4"
definition OV7670_TEST_PATTERN_NONE :: int where [ov_consts]: "OV7670_TEST_PATTERN_NONE = 0"
definition OV7670_TEST_PATTERN_SHIFTING_1 :: int where [ov_consts]: "OV7670_TEST_PATTERN_SHIFTING_1 = 1"
definition OV7670_TEST_PATTERN_COLOR_BAR :: int where [ov_consts]: "OV7670_TEST_PATTERN_COLOR_BAR = 2"
definition OV7670_TEST_PATTERN_COLOR_BAR_FADE :: int where [ov_consts]: "OV7670_TEST_PATTERN_COLOR_BAR_FADE = 3"
definition OV7670_NIGHT_MODE_OFF :: int where [ov_consts]: "OV7670_NIGHT_MODE_OFF = 0"
definition OV7670_NIGHT_MODE_2 :: int where [ov_consts]: "OV7670_NIGHT_MODE_2 = 0b10100000"
definition OV7670_NIGHT_MODE_4 :: int where [ov_consts]: "OV7670_NIGHT_MODE_4 = 0b11000000"
definition OV7670_NIGHT_MODE_8 :: int where [ov_consts]: "OV7670_NIGHT_MODE_8 = 0b11100000"
definition OV7670_REG_GAIN :: int where [ov_consts]: "OV7670_REG_GAIN = 0x00"
definition OV7670_REG_VREF :: int where [ov_consts]: "OV7670_REG_VREF = 0x03"
definition OV7670_COM2_SSLEEP :: int where [ov_consts]: "OV7670_COM2_SSLEEP = 0x10"
definition OV7670_REG_COM3 :: int where [ov_consts]: "OV7670_REG_COM3 = 0x0C"
definition OV7670_COM3_SCALEEN :: int where [ov_consts]: "OV7670_COM3_SCALEEN = 0x08"
definition OV7670_COM3_DCWEN :: int where [ov_consts]: "OV7670_COM3_DCWEN = 0x04"
definition OV7670_REG_COM4 :: int where [ov_consts]: "OV7670_REG_COM4 = 0x0D"
definition OV7670_REG_COM5 :: int where [ov_consts]: "OV7670_REG_COM5 = 0x0E"
definition OV7670_REG_COM6 :: int where [ov_consts]: "OV7670_REG_COM6 = 0x0F"
definition OV7670_REG_COM7 :: int where [ov_consts]: "OV7670_REG_COM7 = 0x12"
definition OV7670_COM7_RESET :: int where [ov_consts]: "OV7670_COM7_RESET = 0x80"
definition OV7670_COM7_RGB :: int where [ov_consts]: "OV7670_COM7_RGB = 0x04"
definition OV7670_COM7_YUV :: int where [ov_consts]: "OV7670_COM7_YUV = 0x00"
definition OV7670_REG_COM8 :: int where [ov_consts]: "OV7670_REG_COM8 = 0x13"
definition OV7670_COM8_FASTAEC :: int where [ov_consts]: "OV7670_COM8_FASTAEC = 0x80"
definition OV7670_COM8_AECSTEP :: int where [ov_consts]: "OV7670_COM8_AECSTEP = 0x40"
definition OV7670_COM8_BANDING :: int where [ov_consts]: "OV7670_COM8_BANDING = 0x20"
definition OV7670_COM8_AGC :: int where [ov_consts]: "OV7670_COM8_AGC = 0x04"
definition OV7670_COM8_AEC :: int where [ov_consts]: "OV7670_COM8_AEC = 0x01"
definition OV7670_REG_COM9 :: int where [ov_consts]: "OV7670_REG_COM9 = 0x14"
definition OV7670_REG_COM10 :: int where [ov_consts]: "OV7670_REG_COM10 = 0x15"
definition OV7670_COM10_VS_NEG :: int where [ov_consts]: "OV7670_COM10_VS_NEG = 0x02"
definition OV7670_REG_HSTART :: int where [ov_consts]: "OV7670_REG_HSTART = 0x17"
definition OV7670_REG_HSTOP :: int where [ov_consts]: "OV7670_REG_HSTOP = 0x18"
definition OV7670_REG_VSTART :: int where [ov_consts]: "OV7670_REG_VSTART = 0x19"
definition OV7670_REG_VSTOP :: int where [ov_consts]: "OV7670_REG_VSTOP = 0x1A"
definition OV7670_REG_MVFP :: int where [ov_consts]: "OV7670_REG_MVFP = 0x1E"
definition OV7670_MVFP_MIRROR :: int where [ov_consts]: "OV7670_MVFP_MIRROR = 0x20"
definition OV7670_MVFP_VFLIP :: int where [ov_consts]: "OV7670_MVFP_VFLIP = 0x10"
definition OV7670_REG_ADCCTR1 :: int where [ov_consts]: "OV7670_REG_ADCCTR1 = 0x21"
definition OV7670_REG_ADCCTR2 :: int where [ov_consts]: "OV7670_REG_ADCCTR2 = 0x22"
definition OV7670_REG_AEW :: int where [ov_consts]: "OV7670_REG_AEW = 0x24"
definition OV7670_REG_AEB :: int where [ov_consts]: "OV7670_REG_AEB = 0x25"
definition OV7670_REG_VPT :: int where [ov_consts]: "OV7670_REG_VPT = 0x26"
definition OV7670_REG_HREF :: int where [ov_consts]: "OV7670_REG_HREF = 0x32"
definition OV7670_REG_CHLF :: int where [ov_consts]: "OV7670_REG_CHLF = 0x33"
definition OV7670_REG_ADC :: int where [ov_consts]: "OV7670_REG_ADC = 0x37"
definition OV7670_REG_ACOM :: int where [ov_consts]: "OV7670_REG_ACOM = 0x38"
definition OV7670_REG_OFON :: int where [ov_consts]: "OV7670_REG_OFON = 0x39"
definition OV7670_REG_TSLB :: int where [ov_consts]: "OV7670_REG_TSLB = 0x3A"
definition OV7670_TSLB_YLAST :: int where [ov_consts]: "OV7670_TSLB_YLAST = 0x04"
definition OV7670_REG_COM11 :: int where [ov_consts]: "OV7670_REG_COM11 = 0x3B"
definition OV7670_REG_COM12 :: int where [ov_consts]: "OV7670_REG_COM12 = 0x3C"
definition OV7670_REG_COM14 :: int where [ov_consts]: "OV7670_REG_COM14 = 0x3E"
definition OV7670_REG_COM15 :: int where [ov_consts]: "OV7670_REG_COM15 = 0x40"
definition OV7670_COM15_R00FF :: int where [ov_consts]: "OV7670_COM15_R00FF = 0xC0"
definition OV7670_COM15_RGB565 :: int where [ov_consts]: "OV7670_COM15_RGB565 = 0x10"
definition OV7670_REG_AWBC1 :: int where [ov_consts]: "OV7670_REG_AWBC1 = 0x43"
definition OV7670_REG_AWBC2 :: int where [ov_consts]: "OV7670_REG_AWBC2 = 0x44"
definition OV7670_REG_AWBC3 :: int where [ov_consts]: "OV7670_REG_AWBC3 = 0x45"
definition OV7670_REG_AWBC4 :: int where [ov_consts]: "OV7670_REG_AWBC4 = 0x46"
definition OV7670_REG_AWBC5 :: int where [ov_consts]: "OV7670_REG_AWBC5 = 0x47"
definition OV7670_REG_AWBC6 :: int where [ov_consts]: "OV7670_REG_AWBC6 = 0x48"
definition OV7670_REG_MTX1 :: int where [ov_consts]: "OV7670_REG_MTX1 = 0x4F"
definition OV7670_REG_MTX2 :: int where [ov_consts]: "OV7670_REG_MTX2 = 0x50"
definition OV7670_REG_MTX3 :: int where [ov_consts]: "OV7670_REG_MTX3 = 0x51"
definition OV7670_REG_MTX4 :: int where [ov_consts]: "OV7670_REG_MTX4 = 0x52"
definition OV7670_REG_MTX5 :: int where [ov_consts]: "OV7670_REG_MTX5 = 0x53"
definition OV7670_REG_MTX6 :: int where [ov_consts]: "OV7670_REG_MTX6 = 0x54"
definition OV7670_REG_BRIGHT :: int where [ov_consts]: "OV7670_REG_BRIGHT = 0x55"
definition OV7670_REG_CONTRAS :: int where [ov_consts]: "OV7670_REG_CONTRAS = 0x56"
definition OV7670_REG_CONTRAS_CENTER :: int where [ov_consts]: "OV7670_REG_CONTRAS_CENTER = 0x57"
definition OV7670_REG_LCC3 :: int where [ov_consts]: "OV7670_REG_LCC3 = 0x64"
definition OV7670_REG_LCC4 :: int where [ov_consts]: "OV7670_REG_LCC4 = 0x65"
definition OV7670_REG_LCC5 :: int where [ov_consts]: "OV7670_REG_LCC5 = 0x66"
definition OV7670_REG_GFIX :: int where [ov_consts]: "OV7670_REG_GFIX = 0x69"
definition OV7670_REG_AWBCTR3 :: int where [ov_consts]: "OV7670_REG_AWBCTR3 = 0x6C"
definition OV7670_REG_AWBCTR2 :: int where [ov_consts]: "OV7670_REG_AWBCTR2 = 0x6D"
definition OV7670_REG_AWBCTR1 :: int where [ov_consts]: "OV7670_REG_AWBCTR1 = 0x6E"
definition OV7670_REG_AWBCTR0 :: int where [ov_consts]: "OV7670_REG_AWBCTR0 = 0x6F"
definition OV7670_REG_SCALING_XSC :: int where [ov_consts]: "OV7670_REG_SCALING_XSC = 0x70"
definition OV7670_REG_SCALING_YSC :: int where [ov_consts]: "OV7670_REG_SCALING_YSC = 0x71"
definition OV7670_REG_SCALING_DCWCTR :: int where [ov_consts]: "OV7670_REG_SCALING_DCWCTR = 0x72"
definition OV7670_REG_SCALING_PCLK_DIV :: int where [ov_consts]: "OV7670_REG_SCALING_PCLK_DIV = 0x73"
definition OV7670_REG_REG74 :: int where [ov_consts]: "OV7670_REG_REG74 = 0x74"
definition OV7670_REG_SLOP :: int where [ov_consts]: "OV7670_REG_SLOP = 0x7A"
definition OV7670_REG_GAM_BASE :: int where [ov_consts]: "OV7670_REG_GAM_BASE = 0x7B"
definition OV7670_REG_RGB444 :: int where [ov_consts]: "OV7670_REG_RGB444 = 0x8C"
definition OV7670_REG_DM_LNL :: int where [ov_consts]: "OV7670_REG_DM_LNL = 0x92"
definition OV7670_REG_LCC6 :: int where [ov_consts]: "OV7670_REG_LCC6 = 0x94"
definition OV7670_REG_LCC7 :: int where [ov_consts]: "OV7670_REG_LCC7 = 0x95"
definition OV7670_REG_HAECC1 :: int where [ov_consts]: "OV7670_REG_HAECC1 = 0x9F"
definition OV7670_REG_HAECC2 :: int where [ov_consts]: "OV7670_REG_HAECC2 = 0xA0"
definition OV7670_REG_SCALING_PCLK_DELAY :: int where [ov_consts]: "OV7670_REG_SCALING_PCLK_DELAY = 0xA2"
definition OV7670_REG_BD50MAX :: int where [ov_consts]: "OV7670_REG_BD50MAX = 0xA5"
definition OV7670_REG_HAECC3 :: int where [ov_consts]: "OV7670_REG_HAECC3 = 0xA6"
definition OV7670_REG_HAECC4 :: int where [ov_consts]: "OV7670_REG_HAECC4 = 0xA7"
definition OV7670_REG_HAECC5 :: int where [ov_consts]: "OV7670_REG_HAECC5 = 0xA8"
definition OV7670_REG_HAECC6 :: int where [ov_consts]: "OV7670_REG_HAECC6 = 0xA9"
definition OV7670_REG_HAECC7 :: int where [ov_consts]: "OV7670_REG_HAECC7 = 0xAA"
definition OV7670_REG_BD60MAX :: int where [ov_consts]: "OV7670_REG_BD60MAX = 0xAB"
definition OV7670_REG_ABLC1 :: int where [ov_consts]: "OV7670_REG_ABLC1 = 0xB1"
definition OV7670_REG_THL_ST :: int where [ov_consts]: "OV7670_REG_THL_ST = 0xB3"

subsection \<open>Register tables\<close>

text \<open>\<open>_OV7670_rgb\<close>, \<open>_OV7670_yuv\<close> and \<open>_OV7670_init\<close>: register, value, register, value, ...\<close>

definition OV7670_rgb :: "int list" where
  "OV7670_rgb =
    [
     OV7670_REG_COM7, OV7670_COM7_RGB,
     OV7670_REG_RGB444, 0,
     OV7670_REG_COM15, OV7670_COM15_RGB565 OR OV7670_COM15_R00FF
    ]"

definition OV7670_yuv :: "int list" where
  "OV7670_yuv =
    [
     OV7670_REG_COM7, OV7670_COM7_YUV,
     OV7670_REG_COM15, OV7670_COM15_R00FF
    ]"

definition OV7670_init :: "int list" where
  "OV7670_init =
    [
     OV7670_REG_TSLB, OV7670_TSLB_YLAST,
     OV7670_REG_COM10, OV7670_COM10_VS_NEG,
     OV7670_REG_SLOP, 0x20,
     OV7670_REG_GAM_BASE, 0x1C,
     OV7670_REG_GAM_BASE + 1, 0x28,
     OV7670_REG_GAM_BASE + 2, 0x3C,
     OV7670_REG_GAM_BASE + 3, 0x55,
     OV7670_REG_GAM_BASE + 4, 0x68,
     OV7670_REG_GAM_BASE + 5, 0x76,
     OV7670_REG_GAM_BASE + 6, 0x80,
     OV7670_REG_GAM_BASE + 7, 0x88,
     OV7670_REG_GAM_BASE + 8, 0x8F,
     OV7670_REG_GAM_BASE + 9, 0x96,
     OV7670_REG_GAM_BASE + 10, 0xA3,
     OV7670_REG_GAM_BASE + 11, 0xAF,
     OV7670_REG_GAM_BASE + 12, 0xC4,
     OV7670_REG_GAM_BASE + 13, 0xD7,
     OV7670_REG_GAM_BASE + 14, 0xE8,
     OV7670_REG_COM8, OV7670_COM8_FASTAEC OR OV7670_COM8_AECSTEP OR OV7670_COM8_BANDING,
     OV7670_REG_GAIN, 0x00,
     OV7670_COM2_SSLEEP, 0x00,
     OV7670_REG_COM4, 0x00,
     OV7670_REG_COM9, 0x20,
     OV7670_REG_BD50MAX, 0x05,
     OV7670_REG_BD60MAX, 0x07,
     OV7670_REG_AEW, 0x75,
     OV7670_REG_AEB, 0x63,
     OV7670_REG_VPT, 0xA5,
     OV7670_REG_HAECC1, 0x78,
     OV7670_REG_HAECC2, 0x68,
     0xA1, 0x03,
     OV7670_REG_HAECC3, 0xDF,
     OV7670_REG_HAECC4, 0xDF,
     OV7670_REG_HAECC5, 0xF0,
     OV7670_REG_HAECC6, 0x90,
     OV7670_REG_HAECC7, 0x94,
     OV7670_REG_COM8, OV7670_COM8_FASTAEC OR OV7670_COM8_AECSTEP OR OV7670_COM8_BANDING OR OV7670_COM8_AGC OR OV7670_COM8_AEC,
     OV7670_REG_COM5, 0x61,
     OV7670_REG_COM6, 0x4B,
     0x16, 0x02,
     OV7670_REG_MVFP, 0x07,
     OV7670_REG_ADCCTR1, 0x02,
     OV7670_REG_ADCCTR2, 0x91,
     0x29, 0x07,
     OV7670_REG_CHLF, 0x0B,
     0x35, 0x0B,
     OV7670_REG_ADC, 0x1D,
     OV7670_REG_ACOM, 0x71,
     OV7670_REG_OFON, 0x2A,
     OV7670_REG_COM12, 0x78,
     0x4D, 0x40,
     0x4E, 0x20,
     OV7670_REG_GFIX, 0x5D,
     OV7670_REG_REG74, 0x19,
     0x8D, 0x4F,
     0x8E, 0x00,
     0x8F, 0x00,
     0x90, 0x00,
     0x91, 0x00,
     OV7670_REG_DM_LNL, 0x00,
     0x96, 0x00,
     0x9A, 0x80,
     0xB0, 0x84,
     OV7670_REG_ABLC1, 0x0C,
     0xB2, 0x0E,
     OV7670_REG_THL_ST, 0x82,
     0xB8, 0x0A,
     OV7670_REG_AWBC1, 0x14,
     OV7670_REG_AWBC2, 0xF0,
     OV7670_REG_AWBC3, 0x34,
     OV7670_REG_AWBC4, 0x58,
     OV7670_REG_AWBC5, 0x28,
     OV7670_REG_AWBC6, 0x3A,
     0x59, 0x88,
     0x5A, 0x88,
     0x5B, 0x44,
     0x5C, 0x67,
     0x5D, 0x49,
     0x5E, 0x0E,
     OV7670_REG_LCC3, 0x04,
     OV7670_REG_LCC4, 0x20,
     OV7670_REG_LCC5, 0x05,
     OV7670_REG_LCC6, 0x04,
     OV7670_REG_LCC7, 0x08,
     OV7670_REG_AWBCTR3, 0x0A,
     OV7670_REG_AWBCTR2, 0x55,
     OV7670_REG_MTX1, 0x80,
     OV7670_REG_MTX2, 0x80,
     OV7670_REG_MTX3, 0x00,
     OV7670_REG_MTX4, 0x22,
     OV7670_REG_MTX5, 0x5E,
     OV7670_REG_MTX6, 0x80,
     OV7670_REG_AWBCTR1, 0x11,
     OV7670_REG_AWBCTR0, 0x9F,
     OV7670_REG_BRIGHT, 0x00,
     OV7670_REG_CONTRAS, 0x40,
     OV7670_REG_CONTRAS_CENTER, 0x80
    ]"

text \<open>The window table: one row \<open>[vstart, hstart, edge_offset, pclk_delay]\<close> per size.\<close>

definition window :: "(int \<times> int \<times> int \<times> int) list" where
  "window =
    [(9, 162, 2, 2),
     (10, 174, 0, 2),
     (11, 186, 2, 2),
     (12, 210, 0, 2),
     (15, 252, 3, 2)]"

subsection \<open>The sensor, the bus and the driver object\<close>

text \<open>
  What the outside world sees of a run: register transactions that went through, and the
  levels driven on the shutdown and reset lines. Delays (\<open>time.sleep\<close>), the master
  clock and the capture engine are not part of the model.
\<close>

datatype event =
    BusWrite int int
  | BusRead int int
  | ShutdownPin bool
  | ResetPin bool

datatype error = OSError | ValueError | IndexError | TypeError

text \<open>
  \<open>regs\<close> is the sensor's register file: a read returns the byte last written to the
  address. \<open>faults\<close> is the future of the bus: one flag per register transaction still to
  come, \<open>True\<close> where the transfer fails (the bus raises \<open>OSError\<close>); transactions past
  the end of the list succeed. \<open>trace\<close> collects the events, oldest first. The other
  fields are the attributes of the Python object; \<open>None\<close> is Python's \<open>None\<close>.
\<close>

record ov7670 =
  regs :: "int \<Rightarrow> 8 word"
  faults :: "bool list"
  trace :: "event list"
  self_colorspace :: "int option"
  self_size :: "int option"
  self_test_pattern :: "int option"
  self_flip_x :: bool
  self_flip_y :: bool
  self_night :: int

text \<open>The byte a register holds, as the Python integer a read returns.\<close>

definition reg_byte :: "ov7670 \<Rightarrow> int \<Rightarrow> int" where
  "reg_byte s reg = uint (regs s reg)"

text \<open>Sequencing of statements: the first exception ends the run and keeps the state.\<close>

definition and_then ::
  "('s \<Rightarrow> (error + 'a) \<times> 's) \<Rightarrow> ('a \<Rightarrow> 's \<Rightarrow> (error + 'b) \<times> 's) \<Rightarrow> 's \<Rightarrow> (error + 'b) \<times> 's" where
  "and_then m f s = (case m s of (Inl e, s') \<Rightarrow> (Inl e, s') | (Inr a, s') \<Rightarrow> f a s')"

definition modify :: "('s \<Rightarrow> 's) \<Rightarrow> 's \<Rightarrow> (error + unit) \<times> 's" where
  "modify f s = (Inr (), f s)"

definition emit :: "event \<Rightarrow> ov7670 \<Rightarrow> (error + unit) \<times> ov7670" where
  "emit e = modify (\<lambda>s. s\<lparr>trace := trace s @ [e]\<rparr>)"

text \<open>One bus transaction takes the next fault flag.\<close>

definition next_fault :: "ov7670 \<Rightarrow> bool \<times> ov7670" where
  "next_fault s = (case faults s of [] \<Rightarrow> (False, s) | f # fs \<Rightarrow> (f, s\<lparr>faults := fs\<rparr>))"

text \<open>
  \<open>_write_register\<close>: both bytes go into a \<open>bytearray\<close>, which takes integers in
  \<open>range(256)\<close> only, before the bus is touched. A failed transfer leaves the register as
  it was.
\<close>

definition write_register :: "int \<Rightarrow> int \<Rightarrow> ov7670 \<Rightarrow> (error + unit) \<times> ov7670" where
  "write_register reg v s =
     (if 0 \<le> reg \<and> reg < 256 then
        if 0 \<le> v \<and> v < 256 then
          (case next_fault s of
             (True, s') \<Rightarrow> (Inl OSError, s')
           | (False, s') \<Rightarrow>
               (Inr (), s'\<lparr>regs := (regs s')(reg := word_of_int v),
                            trace := trace s' @ [BusWrite reg v]\<rparr>))
        else (Inl ValueError, s)
      else (Inl ValueError, s))"

text \<open>\<open>_read_register\<close>: the address is written, one byte is read back.\<close>

definition read_register :: "int \<Rightarrow> ov7670 \<Rightarrow> (error + int) \<times> ov7670" where
  "read_register reg s =
     (if 0 \<le> reg \<and> reg < 256 then
        (case next_fault s of
           (True, s') \<Rightarrow> (Inl OSError, s')
         | (False, s') \<Rightarrow>
             (Inr (reg_byte s' reg), s'\<lparr>trace := trace s' @ [BusRead reg (reg_byte s' reg)]\<rparr>))
      else (Inl ValueError, s))"

text \<open>
  \<open>_write_list\<close>: the list is walked in steps of two; an odd length raises
  \<open>IndexError\<close> at the value that is missing, before anything is written for that pair.
\<close>

fun write_list :: "int list \<Rightarrow> ov7670 \<Rightarrow> (error + unit) \<times> ov7670" where
  "write_list [] s = (Inr (), s)"
| "write_list [reg] s = (Inl IndexError, s)"
| "write_list (reg # v # rest) s =
     (case write_register reg v s of
        (Inl e, s') \<Rightarrow> (Inl e, s')
      | (Inr _, s') \<Rightarrow> write_list rest s')"

subsection \<open>Frame geometry\<close>

text \<open>\<open>_frame_control\<close>, statement by statement.\<close>

definition frame_control ::
  "int \<Rightarrow> int \<Rightarrow> int \<Rightarrow> int \<Rightarrow> int \<Rightarrow> ov7670 \<Rightarrow> (error + unit) \<times> ov7670" where
  "frame_control sz vstart hstart edge_offset pclk_delay =
     and_then (write_register OV7670_REG_COM3
        (let v = (if sz > OV7670_SIZE_DIV1 then OV7670_COM3_DCWEN else 0)
         in if sz = OV7670_SIZE_DIV16 then v OR OV7670_COM3_SCALEEN else v)) (\<lambda>_.
     and_then (write_register OV7670_REG_COM14
        (if sz > OV7670_SIZE_DIV1 then 0x18 + sz else 0)) (\<lambda>_.
     and_then (write_register OV7670_REG_SCALING_DCWCTR
        ((if sz \<le> OV7670_SIZE_DIV8 then sz else OV7670_SIZE_DIV8) * 0x11)) (\<lambda>_.
     and_then (write_register OV7670_REG_SCALING_PCLK_DIV
        (if sz > OV7670_SIZE_DIV1 then 0xF0 + sz else 0x08)) (\<lambda>_.
     let v = (if sz = OV7670_SIZE_DIV16 then 0x40 else 0x20) in
     and_then (read_register OV7670_REG_SCALING_XSC) (\<lambda>xsc.
     and_then (read_register OV7670_REG_SCALING_YSC) (\<lambda>ysc.
     and_then (write_register OV7670_REG_SCALING_XSC ((xsc AND 0x80) OR v)) (\<lambda>_.
     and_then (write_register OV7670_REG_SCALING_YSC ((ysc AND 0x80) OR v)) (\<lambda>_.
     let vstop = vstart + 480; hstop = (hstart + 640) mod 784 in
     and_then (write_register OV7670_REG_HSTART (drop_bit 3 hstart)) (\<lambda>_.
     and_then (write_register OV7670_REG_HSTOP (drop_bit 3 hstop)) (\<lambda>_.
     and_then (write_register OV7670_REG_HREF
        (push_bit 6 edge_offset OR push_bit 3 (hstop AND 0b111) OR (hstart AND 0b111))) (\<lambda>_.
     and_then (write_register OV7670_REG_VSTART (drop_bit 2 vstart)) (\<lambda>_.
     and_then (write_register OV7670_REG_VSTOP (drop_bit 2 vstop)) (\<lambda>_.
     and_then (write_register OV7670_REG_VREF
        (push_bit 2 (vstop AND 0b11) OR (vstart AND 0b11))) (\<lambda>_.
     write_register OV7670_REG_SCALING_PCLK_DELAY pclk_delay))))))))))))))"

subsection \<open>Properties of the object\<close>

text \<open>
  \<open>width\<close> and \<open>height\<close>: \<open>640 >> self._size\<close>. Shifting by \<open>None\<close> raises
  \<open>TypeError\<close>, shifting by a negative count \<open>ValueError\<close>.
\<close>

definition width :: "ov7670 \<Rightarrow> error + int" where
  "width s =
     (case self_size s of
        None \<Rightarrow> Inl TypeError
      | Some c \<Rightarrow> if c < 0 then Inl ValueError else Inr (drop_bit (nat c) 640))"

definition height :: "ov7670 \<Rightarrow> error + int" where
  "height s =
     (case self_size s of
        None \<Rightarrow> Inl TypeError
      | Some c \<Rightarrow> if c < 0 then Inl ValueError else Inr (drop_bit (nat c) 480))"

definition colorspace_getter :: "ov7670 \<Rightarrow> int option" where
  "colorspace_getter s = self_colorspace s"

definition colorspace_setter :: "int \<Rightarrow> ov7670 \<Rightarrow> (error + unit) \<times> ov7670" where
  "colorspace_setter colorspace =
     and_then (modify (\<lambda>s. s\<lparr>self_colorspace := Some colorspace\<rparr>)) (\<lambda>_.
     write_list (if colorspace = OV7670_COLOR_RGB then OV7670_rgb else OV7670_yuv))"

definition size_getter :: "ov7670 \<Rightarrow> int option" where
  "size_getter s = self_size s"

text \<open>
  \<open>_window[size]\<close>: Python indexing, where \<open>-1\<close> is the last row and anything outside
  \<open>-5 .. 4\<close> raises \<open>IndexError\<close>.
\<close>

definition window_row :: "int \<Rightarrow> error + (int \<times> int \<times> int \<times> int)" where
  "window_row i =
     (let n = int (length window); j = (if i < 0 then n + i else i)
      in if 0 \<le> j \<and> j < n then Inr (window ! nat j) else Inl IndexError)"

definition size_setter :: "int \<Rightarrow> ov7670 \<Rightarrow> (error + unit) \<times> ov7670" where
  "size_setter sz s =
     (case window_row sz of
        Inl e \<Rightarrow> (Inl e, s)
      | Inr (vstart, hstart, edge_offset, pclk_delay) \<Rightarrow>
          and_then (frame_control sz vstart hstart edge_offset pclk_delay) (\<lambda>_.
          modify (\<lambda>s. s\<lparr>self_size := Some sz\<rparr>)) s)"

definition test_pattern_getter :: "ov7670 \<Rightarrow> int option" where
  "test_pattern_getter s = self_test_pattern s"

definition test_pattern_setter :: "int \<Rightarrow> ov7670 \<Rightarrow> (error + unit) \<times> ov7670" where
  "test_pattern_setter pattern =
     and_then (read_register OV7670_REG_SCALING_XSC) (\<lambda>x.
     and_then (read_register OV7670_REG_SCALING_YSC) (\<lambda>y.
     let xsc = x AND NOT 0x80;
         ysc = y AND NOT 0x80;
         xsc = (if pattern AND 1 \<noteq> 0 then xsc OR 0x80 else xsc);
         ysc = (if pattern AND 2 \<noteq> 0 then ysc OR 0x80 else ysc)
     in and_then (write_register OV7670_REG_SCALING_XSC xsc) (\<lambda>_.
        write_register OV7670_REG_SCALING_YSC ysc)))"

definition set_flip :: "ov7670 \<Rightarrow> (error + unit) \<times> ov7670" where
  "set_flip =
     and_then (read_register OV7670_REG_MVFP) (\<lambda>mvfp s.
       let mvfp = (if self_flip_x s then mvfp OR OV7670_MVFP_MIRROR
                   else mvfp AND NOT OV7670_MVFP_MIRROR);
           mvfp = (if self_flip_y s then mvfp OR OV7670_MVFP_VFLIP
                   else mvfp AND NOT OV7670_MVFP_VFLIP)
       in write_register OV7670_REG_MVFP mvfp s)"

definition flip_x_getter :: "ov7670 \<Rightarrow> bool" where
  "flip_x_getter s = self_flip_x s"

text \<open>\<open>bool(value)\<close> of an integer is \<open>value != 0\<close>.\<close>

definition flip_x_setter :: "int \<Rightarrow> ov7670 \<Rightarrow> (error + unit) \<times> ov7670" where
  "flip_x_setter v =
     and_then (modify (\<lambda>s. s\<lparr>self_flip_x := (v \<noteq> 0)\<rparr>)) (\<lambda>_. set_flip)"

definition flip_y_getter :: "ov7670 \<Rightarrow> bool" where
  "flip_y_getter s = self_flip_y s"

definition flip_y_setter :: "int \<Rightarrow> ov7670 \<Rightarrow> (error + unit) \<times> ov7670" where
  "flip_y_setter v =
     and_then (modify (\<lambda>s. s\<lparr>self_flip_y := (v \<noteq> 0)\<rparr>)) (\<lambda>_. set_flip)"

definition night_getter :: "ov7670 \<Rightarrow> int" where
  "night_getter s = self_night s"

definition night_setter :: "int \<Rightarrow> ov7670 \<Rightarrow> (error + unit) \<times> ov7670" where
  "night_setter v =
     and_then (read_register OV7670_REG_COM11) (\<lambda>com11.
     and_then (write_register OV7670_REG_COM11 ((com11 AND 0b00011111) OR v)) (\<lambda>_.
     modify (\<lambda>s. s\<lparr>self_night := v\<rparr>)))"

subsection \<open>Construction\<close>

text \<open>
  The object before \<open>__init__\<close> has run, in front of a sensor with register file \<open>r\<close>
  and a bus with future \<open>fs\<close>.
\<close>

definition fresh :: "(int \<Rightarrow> 8 word) \<Rightarrow> bool list \<Rightarrow> ov7670" where
  "fresh r fs =
     \<lparr>regs = r, faults = fs, trace = [],
      self_colorspace = None, self_size = None, self_test_pattern = None,
      self_flip_x = False, self_flip_y = False, self_night = 0\<rparr>"

text \<open>
  \<open>__init__\<close>, with \<open>shutdown\<close> and \<open>reset\<close> telling whether the two optional pins
  were given.
\<close>

definition skip :: "ov7670 \<Rightarrow> (error + unit) \<times> ov7670" where
  "skip = modify (\<lambda>s. s)"

definition init :: "bool \<Rightarrow> bool \<Rightarrow> ov7670 \<Rightarrow> (error + unit) \<times> ov7670" where
  "init shutdown reset =
     and_then (if shutdown
               then and_then (emit (ShutdownPin True)) (\<lambda>_. emit (ShutdownPin False))
               else skip) (\<lambda>_.
     and_then (if reset
               then and_then (emit (ResetPin False)) (\<lambda>_. emit (ResetPin True))
               else skip) (\<lambda>_.
     and_then (if \<not> reset then write_register OV7670_REG_COM7 OV7670_COM7_RESET
               else skip) (\<lambda>_.
     and_then (modify (\<lambda>s. s\<lparr>self_colorspace := None\<rparr>)) (\<lambda>_.
     and_then (colorspace_setter OV7670_COLOR_RGB) (\<lambda>_.
     and_then (write_list OV7670_init) (\<lambda>_.
     and_then (modify (\<lambda>s. s\<lparr>self_size := None\<rparr>)) (\<lambda>_.
     and_then (size_setter OV7670_SIZE_DIV8) (\<lambda>_.
     and_then (modify (\<lambda>s. s\<lparr>self_test_pattern := None\<rparr>)) (\<lambda>_.
     and_then (test_pattern_setter OV7670_TEST_PATTERN_NONE) (\<lambda>_.
     and_then (modify (\<lambda>s. s\<lparr>self_flip_x := False\<rparr>)) (\<lambda>_.
     and_then (modify (\<lambda>s. s\<lparr>self_flip_y := False\<rparr>)) (\<lambda>_.
     modify (\<lambda>s. s\<lparr>self_night := OV7670_NIGHT_MODE_OFF\<rparr>)))))))))))))"

subsection \<open>Reading a register table\<close>

text \<open>
  Two auxiliary notions, used only to state what \<open>write_list\<close> does with a table: the
  register writes the table stands for, in order, and the register file after them.
\<close>

fun writes_of :: "int list \<Rightarrow> event list" where
  "writes_of (reg # v # rest) = BusWrite reg v # writes_of rest"
| "writes_of _ = []"

fun store_list :: "int list \<Rightarrow> (int \<Rightarrow> 8 word) \<Rightarrow> (int \<Rightarrow> 8 word)" where
  "store_list (reg # v # rest) rg = store_list rest (rg(reg := word_of_int v))"
| "store_list _ rg = rg"

subsection \<open>Counting bus transactions\<close>

text \<open>
  An auxiliary notion for the proofs about a failing bus: \<open>m\<close> performs \<open>n\<close> register
  transactions. It returns (with a result satisfying \<open>P\<close>) exactly when none of the
  next \<open>n\<close> transfers fails, having used up their flags; otherwise it raises \<open>OSError\<close>.
\<close>

definition transacts ::
  "nat \<Rightarrow> ('a \<Rightarrow> bool) \<Rightarrow> (ov7670 \<Rightarrow> (error + 'a) \<times> ov7670) \<Rightarrow> bool" where
  "transacts n P m =
     (\<forall>s. case m s of
        (Inr x, s') \<Rightarrow> P x \<and> faults s' = drop n (faults s) \<and> True \<notin> set (take n (faults s))
      | (Inl e, s') \<Rightarrow> e = OSError \<and> True \<in> set (take n (faults s)))"

section \<open>Properties\<close>

subsection \<open>Bytes\<close>

lemma uint8_lt: "uint (w :: 8 word) < 256"
  using uint_bounded [of w] by simp

lemma uint_byte: "0 \<le> v \<Longrightarrow> v < 256 \<Longrightarrow> uint (word_of_int v :: 8 word) = v"
  by (simp add: uint_word_of_int_eq take_bit_int_eq_self)

lemma reg_byte_range: "0 \<le> reg_byte s r \<and> reg_byte s r < 256"
  by (simp add: reg_byte_def uint8_lt)

lemma byte_or:
  "0 \<le> a \<Longrightarrow> a < 256 \<Longrightarrow> 0 \<le> b \<Longrightarrow> b < 256 \<Longrightarrow> 0 \<le> a OR b \<and> a OR b < (256::int)"
  using OR_upper [of a 8 b] by simp

lemma byte_and: "0 \<le> a \<Longrightarrow> a < 256 \<Longrightarrow> 0 \<le> a AND b \<and> a AND b < (256::int)"
  using AND_upper1 [of a b] AND_lower [of a b] by simp

lemma byte_and_mask: "0 \<le> m \<Longrightarrow> m < 256 \<Longrightarrow> 0 \<le> a AND m \<and> a AND m < (256::int)"
  using AND_upper2 [of m a] by simp

lemmas byte_simps = uint8_lt uint_byte byte_or byte_and byte_and_mask

subsection \<open>Register transactions on a bus that does not fail\<close>

lemma write_register_ok:
  "faults s = [] \<Longrightarrow> 0 \<le> reg \<Longrightarrow> reg < 256 \<Longrightarrow> 0 \<le> v \<Longrightarrow> v < 256 \<Longrightarrow>
   write_register reg v s =
     (Inr (), s\<lparr>regs := (regs s)(reg := word_of_int v), trace := trace s @ [BusWrite reg v]\<rparr>)"
  by (simp add: write_register_def next_fault_def)

lemma read_register_ok:
  "faults s = [] \<Longrightarrow> 0 \<le> reg \<Longrightarrow> reg < 256 \<Longrightarrow>
   read_register reg s =
     (Inr (uint (regs s reg)), s\<lparr>trace := trace s @ [BusRead reg (uint (regs s reg))]\<rparr>)"
  by (simp add: read_register_def next_fault_def reg_byte_def)

lemmas run_simps =
  and_then_def modify_def Let_def write_register_ok read_register_ok byte_simps ov_consts

subsection \<open>What the size setter does\<close>

lemma window_rows:
  "window_row OV7670_SIZE_DIV1 = Inr (9, 162, 2, 2)"
  "window_row OV7670_SIZE_DIV2 = Inr (10, 174, 0, 2)"
  "window_row OV7670_SIZE_DIV4 = Inr (11, 186, 2, 2)"
  "window_row OV7670_SIZE_DIV8 = Inr (12, 210, 0, 2)"
  "window_row OV7670_SIZE_DIV16 = Inr (15, 252, 3, 2)"
  by (simp_all add: window_row_def window_def ov_consts)

lemma size_setter_run:
  assumes ok: "faults s = []"
    and sz: "sz \<in> {OV7670_SIZE_DIV1, OV7670_SIZE_DIV2, OV7670_SIZE_DIV4, OV7670_SIZE_DIV8,
                   OV7670_SIZE_DIV16}"
    and row: "window_row sz = Inr (vstart, hstart, edge_offset, pclk_delay)"
  shows "size_setter sz s =
    (Inr (),
     s\<lparr>regs := (regs s)
        (OV7670_REG_COM3 := word_of_int
           ((if sz > OV7670_SIZE_DIV1 then OV7670_COM3_DCWEN else 0) OR
            (if sz = OV7670_SIZE_DIV16 then OV7670_COM3_SCALEEN else 0)),
         OV7670_REG_COM14 := word_of_int (if sz > OV7670_SIZE_DIV1 then 0x18 + sz else 0),
         OV7670_REG_SCALING_DCWCTR := word_of_int (min sz OV7670_SIZE_DIV8 * 0x11),
         OV7670_REG_SCALING_PCLK_DIV :=
           word_of_int (if sz > OV7670_SIZE_DIV1 then 0xF0 + sz else 0x08),
         OV7670_REG_SCALING_XSC := word_of_int
           ((reg_byte s OV7670_REG_SCALING_XSC AND 0x80) OR
            (if sz = OV7670_SIZE_DIV16 then 0x40 else 0x20)),
         OV7670_REG_SCALING_YSC := word_of_int
           ((reg_byte s OV7670_REG_SCALING_YSC AND 0x80) OR
            (if sz = OV7670_SIZE_DIV16 then 0x40 else 0x20)),
         OV7670_REG_HSTART := word_of_int (drop_bit 3 hstart),
         OV7670_REG_HSTOP := word_of_int (drop_bit 3 ((hstart + 640) mod 784)),
         OV7670_REG_HREF := word_of_int
           (push_bit 6 edge_offset OR push_bit 3 (((hstart + 640) mod 784) AND 7) OR
            (hstart AND 7)),
         OV7670_REG_VSTART := word_of_int (drop_bit 2 vstart),
         OV7670_REG_VSTOP := word_of_int (drop_bit 2 (vstart + 480)),
         OV7670_REG_VREF := word_of_int
           (push_bit 2 ((vstart + 480) AND 3) OR (vstart AND 3)),
         OV7670_REG_SCALING_PCLK_DELAY := word_of_int pclk_delay),
       trace := trace s @
        [BusWrite OV7670_REG_COM3
           ((if sz > OV7670_SIZE_DIV1 then OV7670_COM3_DCWEN else 0) OR
            (if sz = OV7670_SIZE_DIV16 then OV7670_COM3_SCALEEN else 0)),
         BusWrite OV7670_REG_COM14 (if sz > OV7670_SIZE_DIV1 then 0x18 + sz else 0),
         BusWrite OV7670_REG_SCALING_DCWCTR (min sz OV7670_SIZE_DIV8 * 0x11),
         BusWrite OV7670_REG_SCALING_PCLK_DIV
           (if sz > OV7670_SIZE_DIV1 then 0xF0 + sz else 0x08),
         BusRead OV7670_REG_SCALING_XSC (reg_byte s OV7670_REG_SCALING_XSC),
         BusRead OV7670_REG_SCALING_YSC (reg_byte s OV7670_REG_SCALING_YSC),
         BusWrite OV7670_REG_SCALING_XSC
           ((reg_byte s OV7670_REG_SCALING_XSC AND 0x80) OR
            (if sz = OV7670_SIZE_DIV16 then 0x40 else 0x20)),
         BusWrite OV7670_REG_SCALING_YSC
           ((reg_byte s OV7670_REG_SCALING_YSC AND 0x80) OR
            (if sz = OV7670_SIZE_DIV16 then 0x40 else 0x20)),
         BusWrite OV7670_REG_HSTART (drop_bit 3 hstart),
         BusWrite OV7670_REG_HSTOP (drop_bit 3 ((hstart + 640) mod 784)),
         BusWrite OV7670_REG_HREF
           (push_bit 6 edge_offset OR push_bit 3 (((hstart + 640) mod 784) AND 7) OR
            (hstart AND 7)),
         BusWrite OV7670_REG_VSTART (drop_bit 2 vstart),
         BusWrite OV7670_REG_VSTOP (drop_bit 2 (vstart + 480)),
         BusWrite OV7670_REG_VREF (push_bit 2 ((vstart + 480) AND 3) OR (vstart AND 3)),
         BusWrite OV7670_REG_SCALING_PCLK_DELAY pclk_delay],
       self_size := Some sz\<rparr>)"
proof -
  consider "sz = OV7670_SIZE_DIV1" | "sz = OV7670_SIZE_DIV2" | "sz = OV7670_SIZE_DIV4"
    | "sz = OV7670_SIZE_DIV8" | "sz = OV7670_SIZE_DIV16"
    using sz by auto
  then show ?thesis
  proof cases
    case 1
    with row have "vstart = 9" "hstart = 162" "edge_offset = 2" "pclk_delay = 2"
      by (simp_all add: window_rows)
    with 1 ok show ?thesis
      by (simp add: size_setter_def window_rows [unfolded ov_consts] frame_control_def
          reg_byte_def run_simps)
  next
    case 2
    with row have "vstart = 10" "hstart = 174" "edge_offset = 0" "pclk_delay = 2"
      by (simp_all add: window_rows)
    with 2 ok show ?thesis
      by (simp add: size_setter_def window_rows [unfolded ov_consts] frame_control_def
          reg_byte_def run_simps)
  next
    case 3
    with row have "vstart = 11" "hstart = 186" "edge_offset = 2" "pclk_delay = 2"
      by (simp_all add: window_rows)
    with 3 ok show ?thesis
      by (simp add: size_setter_def window_rows [unfolded ov_consts] frame_control_def
          reg_byte_def run_simps)
  next
    case 4
    with row have "vstart = 12" "hstart = 210" "edge_offset = 0" "pclk_delay = 2"
      by (simp_all add: window_rows)
    with 4 ok show ?thesis
      by (simp add: size_setter_def window_rows [unfolded ov_consts] frame_control_def
          reg_byte_def run_simps)
  next
    case 5
    with row have "vstart = 15" "hstart = 252" "edge_offset = 3" "pclk_delay = 2"
      by (simp_all add: window_rows)
    with 5 ok show ?thesis
      by (simp add: size_setter_def window_rows [unfolded ov_consts] frame_control_def
          reg_byte_def run_simps)
  qed
qed


lemma window_row_total:
  assumes "sz \<in> {OV7670_SIZE_DIV1, OV7670_SIZE_DIV2, OV7670_SIZE_DIV4, OV7670_SIZE_DIV8,
                  OV7670_SIZE_DIV16}"
  obtains vstart hstart edge_offset pclk_delay
  where "window_row sz = Inr (vstart, hstart, edge_offset, pclk_delay)"
  using assms window_rows by auto

subsection \<open>What the test pattern setter does\<close>

lemma test_pattern_setter_run:
  assumes ok: "faults s = []"
  shows "test_pattern_setter pattern s =
    (Inr (),
     s\<lparr>regs := (regs s)
        (OV7670_REG_SCALING_XSC := word_of_int
           (if pattern AND 1 \<noteq> 0 then (reg_byte s OV7670_REG_SCALING_XSC AND NOT 0x80) OR 0x80
            else reg_byte s OV7670_REG_SCALING_XSC AND NOT 0x80),
         OV7670_REG_SCALING_YSC := word_of_int
           (if pattern AND 2 \<noteq> 0 then (reg_byte s OV7670_REG_SCALING_YSC AND NOT 0x80) OR 0x80
            else reg_byte s OV7670_REG_SCALING_YSC AND NOT 0x80)),
       trace := trace s @
        [BusRead OV7670_REG_SCALING_XSC (reg_byte s OV7670_REG_SCALING_XSC),
         BusRead OV7670_REG_SCALING_YSC (reg_byte s OV7670_REG_SCALING_YSC),
         BusWrite OV7670_REG_SCALING_XSC
           (if pattern AND 1 \<noteq> 0 then (reg_byte s OV7670_REG_SCALING_XSC AND NOT 0x80) OR 0x80
            else reg_byte s OV7670_REG_SCALING_XSC AND NOT 0x80),
         BusWrite OV7670_REG_SCALING_YSC
           (if pattern AND 2 \<noteq> 0 then (reg_byte s OV7670_REG_SCALING_YSC AND NOT 0x80) OR 0x80
            else reg_byte s OV7670_REG_SCALING_YSC AND NOT 0x80)]\<rparr>)"
  using ok by (simp add: test_pattern_setter_def reg_byte_def run_simps)

subsection \<open>Bits of the shared scaling registers\<close>

lemma zoom_keeps_bit7:
  "z = 0x20 \<or> z = 0x40 \<Longrightarrow> bit ((x AND 0x80) OR z) 7 = bit (x::int) 7"
  by (auto simp add: bit_or_iff bit_and_iff)

lemma zoom_low_bits:
  "z = 0x20 \<or> z = 0x40 \<Longrightarrow> ((x AND 0x80) OR z) AND 0x7F = (z::int)"
  by (auto simp add: bit.conj_disj_distrib2 and.assoc)

lemma pattern_low_bits:
  "((x AND NOT 0x80) OR 0x80) AND 0x7F = x AND (0x7F::int)"
  "(x AND NOT 0x80) AND 0x7F = x AND (0x7F::int)"
  by (simp_all add: bit.conj_disj_distrib2 and.assoc)

lemma pattern_bit7:
  "bit ((x AND NOT 0x80) OR (0x80::int)) 7"
  "\<not> bit (x AND NOT (0x80::int)) 7"
  by (simp_all add: bit_or_iff bit_and_iff bit_not_iff)

lemma bit0_iff: "bit (p::int) 0 \<longleftrightarrow> p AND 1 \<noteq> 0"
  by (simp add: bit_0 and_one_eq odd_iff_mod_2_eq_one)

lemma bit1_iff: "bit (p::int) 1 \<longleftrightarrow> p AND 2 \<noteq> 0"
  using and_exp_eq_0_iff_not_bit [of p 1] by simp

lemma uint_zoom:
  "z = 0x20 \<or> z = 0x40 \<Longrightarrow>
   uint (word_of_int ((uint (w :: 8 word) AND 0x80) OR z) :: 8 word) = (uint w AND 0x80) OR z"
  by (rule uint_byte) (auto simp add: byte_simps)

lemma uint_pattern:
  "uint (word_of_int ((uint (w :: 8 word) AND NOT 0x80) OR 0x80) :: 8 word) =
     (uint w AND NOT 0x80) OR 0x80"
  "uint (word_of_int (uint (w :: 8 word) AND NOT 0x80) :: 8 word) = uint w AND NOT 0x80"
  by (rule uint_byte; simp add: byte_simps)+


lemma size_setter_scaling:
  assumes ok: "faults s = []"
    and X: "X \<in> {OV7670_SIZE_DIV1, OV7670_SIZE_DIV2, OV7670_SIZE_DIV4, OV7670_SIZE_DIV8,
                  OV7670_SIZE_DIV16}"
  shows "\<exists>s1. size_setter X s = (Inr (), s1) \<and> faults s1 = [] \<and>
    reg_byte s1 OV7670_REG_SCALING_XSC =
      (reg_byte s OV7670_REG_SCALING_XSC AND 0x80) OR
      (if X = OV7670_SIZE_DIV16 then 0x40 else 0x20) \<and>
    reg_byte s1 OV7670_REG_SCALING_YSC =
      (reg_byte s OV7670_REG_SCALING_YSC AND 0x80) OR
      (if X = OV7670_SIZE_DIV16 then 0x40 else 0x20)"
proof -
  from X obtain vstart hstart edge_offset pclk_delay
    where row: "window_row X = Inr (vstart, hstart, edge_offset, pclk_delay)"
    by (rule window_row_total)
  have z: "(if X = OV7670_SIZE_DIV16 then 0x40 else 0x20 :: int) = 0x20 \<or>
      (if X = OV7670_SIZE_DIV16 then 0x40 else 0x20 :: int) = 0x40"
    by simp
  show ?thesis
    using ok uint_zoom [OF z, of "regs s OV7670_REG_SCALING_XSC"]
      uint_zoom [OF z, of "regs s OV7670_REG_SCALING_YSC"]
    by (simp add: size_setter_run [OF ok X row] reg_byte_def ov_consts)
qed

lemma test_pattern_setter_scaling:
  assumes ok: "faults t = []"
  shows "\<exists>t'. test_pattern_setter P t = (Inr (), t') \<and>
      reg_byte t' OV7670_REG_SCALING_XSC AND 0x7F = reg_byte t OV7670_REG_SCALING_XSC AND 0x7F \<and>
      reg_byte t' OV7670_REG_SCALING_YSC AND 0x7F = reg_byte t OV7670_REG_SCALING_YSC AND 0x7F \<and>
      bit (reg_byte t' OV7670_REG_SCALING_XSC) 7 = bit P 0 \<and>
      bit (reg_byte t' OV7670_REG_SCALING_YSC) 7 = bit P 1"
  using ok
  by (simp add: test_pattern_setter_run reg_byte_def uint_pattern [simplified]
      pattern_low_bits [simplified] pattern_bit7 [simplified] bit0_iff
      bit1_iff [simplified] ov_consts)

subsection \<open>Claims\<close>

text \<open>
  C8. For every size class \<open>c\<close> in \<open>0 .. 4\<close>, once the size setter has run with \<open>c\<close>
  (on a bus that does not fail), the width getter returns \<open>640 >> c\<close> and the height
  getter returns \<open>480 >> c\<close>; the size getter returns \<open>c\<close>.
\<close>

theorem size_setter_width_height:
  assumes "faults s = []"
    and "c \<in> {OV7670_SIZE_DIV1, OV7670_SIZE_DIV2, OV7670_SIZE_DIV4, OV7670_SIZE_DIV8,
               OV7670_SIZE_DIV16}"
  shows "\<exists>s'. size_setter c s = (Inr (), s') \<and> size_getter s' = Some c \<and>
           width s' = Inr (drop_bit (nat c) 640) \<and> height s' = Inr (drop_bit (nat c) 480)"
proof -
  from assms(2) obtain vstart hstart edge_offset pclk_delay
    where row: "window_row c = Inr (vstart, hstart, edge_offset, pclk_delay)"
    by (rule window_row_total)
  from assms(2) have "0 \<le> c" by (auto simp add: ov_consts)
  then show ?thesis
    by (simp add: size_setter_run [OF assms row] size_getter_def width_def height_def)
qed

theorem size_setter_width_height_witness:
  "faults (fresh (\<lambda>_. 0) []) = [] \<and>
   (\<exists>s'. size_setter OV7670_SIZE_DIV4 (fresh (\<lambda>_. 0) []) = (Inr (), s') \<and>
      size_getter s' = Some 2 \<and> width s' = Inr 160 \<and> height s' = Inr 120) \<and>
   (\<exists>s'. size_setter OV7670_SIZE_DIV16 (fresh (\<lambda>_. 0) []) = (Inr (), s') \<and>
      size_getter s' = Some 4 \<and> width s' = Inr 40 \<and> height s' = Inr 30)"
proof -
  have f: "faults (fresh (\<lambda>_. 0) []) = []"
    by (simp add: fresh_def)
  have m4: "OV7670_SIZE_DIV4 \<in> {OV7670_SIZE_DIV1, OV7670_SIZE_DIV2, OV7670_SIZE_DIV4,
      OV7670_SIZE_DIV8, OV7670_SIZE_DIV16}"
    and m16: "OV7670_SIZE_DIV16 \<in> {OV7670_SIZE_DIV1, OV7670_SIZE_DIV2, OV7670_SIZE_DIV4,
      OV7670_SIZE_DIV8, OV7670_SIZE_DIV16}"
    by simp_all
  from size_setter_width_height [OF f m4] size_setter_width_height [OF f m16] f
  show ?thesis
    by (simp add: ov_consts)
qed


text \<open>
  C1. For every starting register state, every size class \<open>X\<close> and every test pattern
  \<open>P\<close>, on a bus that does not fail: the size setter leaves bit 7 of \<open>SCALING_XSC\<close> and
  of \<open>SCALING_YSC\<close> as it read them and replaces bits 0-6 with the zoom value (\<open>0x40\<close>
  for \<open>DIV16\<close>, else \<open>0x20\<close>); the test pattern setter leaves bits 0-6 of both registers
  as it read them and replaces bit 7 of \<open>XSC\<close> with bit 0 of \<open>P\<close> and bit 7 of \<open>YSC\<close>
  with bit 1 of \<open>P\<close>; after the size setter followed by the test pattern setter, bits 0-6
  of both registers hold the zoom value of \<open>X\<close> and the two bits 7 hold \<open>P\<close>. (It holds
  for every integer \<open>P\<close>, the four pattern constants among them.)
\<close>

theorem size_and_test_pattern_share_scaling_registers:
  assumes ok: "faults s = []"
    and X: "X \<in> {OV7670_SIZE_DIV1, OV7670_SIZE_DIV2, OV7670_SIZE_DIV4, OV7670_SIZE_DIV8,
                  OV7670_SIZE_DIV16}"
  shows "\<exists>s1 s2 s3.
    size_setter X s = (Inr (), s1) \<and>
    bit (reg_byte s1 OV7670_REG_SCALING_XSC) 7 = bit (reg_byte s OV7670_REG_SCALING_XSC) 7 \<and>
    bit (reg_byte s1 OV7670_REG_SCALING_YSC) 7 = bit (reg_byte s OV7670_REG_SCALING_YSC) 7 \<and>
    reg_byte s1 OV7670_REG_SCALING_XSC AND 0x7F = (if X = OV7670_SIZE_DIV16 then 0x40 else 0x20) \<and>
    reg_byte s1 OV7670_REG_SCALING_YSC AND 0x7F = (if X = OV7670_SIZE_DIV16 then 0x40 else 0x20) \<and>
    test_pattern_setter P s = (Inr (), s2) \<and>
    reg_byte s2 OV7670_REG_SCALING_XSC AND 0x7F = reg_byte s OV7670_REG_SCALING_XSC AND 0x7F \<and>
    reg_byte s2 OV7670_REG_SCALING_YSC AND 0x7F = reg_byte s OV7670_REG_SCALING_YSC AND 0x7F \<and>
    bit (reg_byte s2 OV7670_REG_SCALING_XSC) 7 = bit P 0 \<and>
    bit (reg_byte s2 OV7670_REG_SCALING_YSC) 7 = bit P 1 \<and>
    and_then (size_setter X) (\<lambda>_. test_pattern_setter P) s = (Inr (), s3) \<and>
    reg_byte s3 OV7670_REG_SCALING_XSC AND 0x7F = (if X = OV7670_SIZE_DIV16 then 0x40 else 0x20) \<and>
    reg_byte s3 OV7670_REG_SCALING_YSC AND 0x7F = (if X = OV7670_SIZE_DIV16 then 0x40 else 0x20) \<and>
    bit (reg_byte s3 OV7670_REG_SCALING_XSC) 7 = bit P 0 \<and>
    bit (reg_byte s3 OV7670_REG_SCALING_YSC) 7 = bit P 1"
proof -
  let ?z = "if X = OV7670_SIZE_DIV16 then 0x40 else 0x20 :: int"
  have z: "?z = 0x20 \<or> ?z = 0x40"
    by simp
  from size_setter_scaling [OF ok X] obtain s1 where s1: "size_setter X s = (Inr (), s1)"
    and ok1: "faults s1 = []"
    and x1: "reg_byte s1 OV7670_REG_SCALING_XSC = (reg_byte s OV7670_REG_SCALING_XSC AND 0x80) OR ?z"
    and y1: "reg_byte s1 OV7670_REG_SCALING_YSC = (reg_byte s OV7670_REG_SCALING_YSC AND 0x80) OR ?z"
    by blast
  from test_pattern_setter_scaling [OF ok, of P] obtain s2
    where s2: "test_pattern_setter P s = (Inr (), s2)"
    "reg_byte s2 OV7670_REG_SCALING_XSC AND 0x7F = reg_byte s OV7670_REG_SCALING_XSC AND 0x7F"
    "reg_byte s2 OV7670_REG_SCALING_YSC AND 0x7F = reg_byte s OV7670_REG_SCALING_YSC AND 0x7F"
    "bit (reg_byte s2 OV7670_REG_SCALING_XSC) 7 = bit P 0"
    "bit (reg_byte s2 OV7670_REG_SCALING_YSC) 7 = bit P 1"
    by blast
  from test_pattern_setter_scaling [OF ok1, of P] obtain s3
    where s3: "test_pattern_setter P s1 = (Inr (), s3)"
    "reg_byte s3 OV7670_REG_SCALING_XSC AND 0x7F = reg_byte s1 OV7670_REG_SCALING_XSC AND 0x7F"
    "reg_byte s3 OV7670_REG_SCALING_YSC AND 0x7F = reg_byte s1 OV7670_REG_SCALING_YSC AND 0x7F"
    "bit (reg_byte s3 OV7670_REG_SCALING_XSC) 7 = bit P 0"
    "bit (reg_byte s3 OV7670_REG_SCALING_YSC) 7 = bit P 1"
    by blast
  have seq: "and_then (size_setter X) (\<lambda>_. test_pattern_setter P) s = (Inr (), s3)"
    by (simp add: and_then_def s1 s3(1))
  have low1: "reg_byte s1 OV7670_REG_SCALING_XSC AND 0x7F = ?z"
    "reg_byte s1 OV7670_REG_SCALING_YSC AND 0x7F = ?z"
    unfolding x1 y1 by (rule zoom_low_bits [OF z])+
  have hi1: "bit (reg_byte s1 OV7670_REG_SCALING_XSC) 7 = bit (reg_byte s OV7670_REG_SCALING_XSC) 7"
    "bit (reg_byte s1 OV7670_REG_SCALING_YSC) 7 = bit (reg_byte s OV7670_REG_SCALING_YSC) 7"
    unfolding x1 y1 by (rule zoom_keeps_bit7 [OF z])+
  from s1 s2 s3 seq low1 hi1 show ?thesis
    by (intro exI [of _ s1] exI [of _ s2] exI [of _ s3]) simp
qed

theorem size_and_test_pattern_share_scaling_registers_witness:
  "faults (fresh (\<lambda>_. 0xFF) []) = [] \<and>
   (\<exists>s3. and_then (size_setter OV7670_SIZE_DIV16)
            (\<lambda>_. test_pattern_setter OV7670_TEST_PATTERN_COLOR_BAR) (fresh (\<lambda>_. 0xFF) [])
          = (Inr (), s3) \<and>
      reg_byte s3 OV7670_REG_SCALING_XSC = 0x40 \<and>
      reg_byte s3 OV7670_REG_SCALING_YSC = 0xC0)"
proof -
  have f: "faults (fresh (\<lambda>_. 0xFF) []) = []"
    by (simp add: fresh_def)
  have m: "OV7670_SIZE_DIV16 \<in> {OV7670_SIZE_DIV1, OV7670_SIZE_DIV2, OV7670_SIZE_DIV4,
      OV7670_SIZE_DIV8, OV7670_SIZE_DIV16}"
    by simp
  from size_and_test_pattern_share_scaling_registers
    [OF f m, of OV7670_TEST_PATTERN_COLOR_BAR]
  obtain s3 where run:
    "and_then (size_setter OV7670_SIZE_DIV16)
       (\<lambda>_. test_pattern_setter OV7670_TEST_PATTERN_COLOR_BAR) (fresh (\<lambda>_. 0xFF) [])
     = (Inr (), s3)"
    by blast
  have "and_then (size_setter OV7670_SIZE_DIV16)
       (\<lambda>_. test_pattern_setter OV7670_TEST_PATTERN_COLOR_BAR) (fresh (\<lambda>_. 0xFF) [])
     = (Inr (), s3) \<and>
      reg_byte s3 OV7670_REG_SCALING_XSC = 0x40 \<and>
      reg_byte s3 OV7670_REG_SCALING_YSC = 0xC0"
    using run
    by (auto simp add: size_setter_def window_rows [unfolded ov_consts] frame_control_def
        test_pattern_setter_def fresh_def reg_byte_def run_simps)
  with f show ?thesis by blast
qed


text \<open>
  C4. For every size class with window table row \<open>(vstart, hstart, edge_offset,
  pclk_delay)\<close>, the size setter (through \<open>_frame_control\<close>, on a bus that does not fail)
  takes \<open>vstop = vstart + 480\<close> and \<open>hstop = (hstart + 640) mod 784\<close> and writes
  \<open>HSTART = hstart >> 3\<close>, \<open>HSTOP = hstop >> 3\<close>,
  \<open>HREF = (edge_offset << 6) | ((hstop & 7) << 3) | (hstart & 7)\<close>,
  \<open>VSTART = vstart >> 2\<close>, \<open>VSTOP = vstop >> 2\<close> and
  \<open>VREF = ((vstop & 3) << 2) | (vstart & 3)\<close>, in this order, followed by the pixel
  clock delay; the row of \<open>DIV4\<close> has \<open>hstart = 186\<close>, for which \<open>hstop = 42\<close>.
\<close>

theorem frame_control_window_registers:
  assumes ok: "faults s = []"
    and c: "c \<in> {OV7670_SIZE_DIV1, OV7670_SIZE_DIV2, OV7670_SIZE_DIV4, OV7670_SIZE_DIV8,
                  OV7670_SIZE_DIV16}"
    and row: "window_row c = Inr (vstart, hstart, edge_offset, pclk_delay)"
  shows "\<exists>s'. size_setter c s = (Inr (), s') \<and>
    (let vstop = vstart + 480; hstop = (hstart + 640) mod 784 in
       reg_byte s' OV7670_REG_HSTART = drop_bit 3 hstart \<and>
       reg_byte s' OV7670_REG_HSTOP = drop_bit 3 hstop \<and>
       reg_byte s' OV7670_REG_HREF =
         (push_bit 6 edge_offset OR push_bit 3 (hstop AND 7) OR (hstart AND 7)) \<and>
       reg_byte s' OV7670_REG_VSTART = drop_bit 2 vstart \<and>
       reg_byte s' OV7670_REG_VSTOP = drop_bit 2 vstop \<and>
       reg_byte s' OV7670_REG_VREF = (push_bit 2 (vstop AND 3) OR (vstart AND 3)) \<and>
       drop (length (trace s) + 8) (trace s') =
         [BusWrite OV7670_REG_HSTART (drop_bit 3 hstart),
          BusWrite OV7670_REG_HSTOP (drop_bit 3 hstop),
          BusWrite OV7670_REG_HREF
            (push_bit 6 edge_offset OR push_bit 3 (hstop AND 7) OR (hstart AND 7)),
          BusWrite OV7670_REG_VSTART (drop_bit 2 vstart),
          BusWrite OV7670_REG_VSTOP (drop_bit 2 vstop),
          BusWrite OV7670_REG_VREF (push_bit 2 (vstop AND 3) OR (vstart AND 3)),
          BusWrite OV7670_REG_SCALING_PCLK_DELAY pclk_delay]) \<and>
    window_row OV7670_SIZE_DIV4 = Inr (11, 186, 2, 2) \<and> (186 + 640) mod 784 = (42::int)"
proof -
  note run = size_setter_run [OF ok c row]
  consider "c = OV7670_SIZE_DIV1" | "c = OV7670_SIZE_DIV2" | "c = OV7670_SIZE_DIV4"
    | "c = OV7670_SIZE_DIV8" | "c = OV7670_SIZE_DIV16"
    using c by auto
  then show ?thesis
  proof cases
    case 1
    with row have "vstart = 9" "hstart = 162" "edge_offset = 2" "pclk_delay = 2"
      by (simp_all add: window_rows)
    then show ?thesis
      unfolding run by (simp add: window_rows [unfolded ov_consts] reg_byte_def ov_consts)
  next
    case 2
    with row have "vstart = 10" "hstart = 174" "edge_offset = 0" "pclk_delay = 2"
      by (simp_all add: window_rows)
    then show ?thesis
      unfolding run by (simp add: window_rows [unfolded ov_consts] reg_byte_def ov_consts)
  next
    case 3
    with row have "vstart = 11" "hstart = 186" "edge_offset = 2" "pclk_delay = 2"
      by (simp_all add: window_rows)
    then show ?thesis
      unfolding run by (simp add: window_rows [unfolded ov_consts] reg_byte_def ov_consts)
  next
    case 4
    with row have "vstart = 12" "hstart = 210" "edge_offset = 0" "pclk_delay = 2"
      by (simp_all add: window_rows)
    then show ?thesis
      unfolding run by (simp add: window_rows [unfolded ov_consts] reg_byte_def ov_consts)
  next
    case 5
    with row have "vstart = 15" "hstart = 252" "edge_offset = 3" "pclk_delay = 2"
      by (simp_all add: window_rows)
    then show ?thesis
      unfolding run by (simp add: window_rows [unfolded ov_consts] reg_byte_def ov_consts)
  qed
qed

theorem frame_control_window_registers_witness:
  "faults (fresh (\<lambda>_. 0) []) = [] \<and>
   window_row OV7670_SIZE_DIV4 = Inr (11, 186, 2, 2) \<and>
   (\<exists>s'. size_setter OV7670_SIZE_DIV4 (fresh (\<lambda>_. 0) []) = (Inr (), s') \<and>
      reg_byte s' OV7670_REG_HSTART = 23 \<and>
      reg_byte s' OV7670_REG_HSTOP = 5 \<and>
      reg_byte s' OV7670_REG_HREF = 146 \<and>
      reg_byte s' OV7670_REG_VSTART = 2 \<and>
      reg_byte s' OV7670_REG_VSTOP = 122 \<and>
      reg_byte s' OV7670_REG_VREF = 15)"
proof -
  have f: "faults (fresh (\<lambda>_. 0) []) = []"
    by (simp add: fresh_def)
  have m: "OV7670_SIZE_DIV4 \<in> {OV7670_SIZE_DIV1, OV7670_SIZE_DIV2, OV7670_SIZE_DIV4,
      OV7670_SIZE_DIV8, OV7670_SIZE_DIV16}"
    by simp
  have r: "window_row OV7670_SIZE_DIV4 = Inr (11, 186, 2, 2)"
    by (rule window_rows)
  from frame_control_window_registers [OF f m r] f r show ?thesis
    by (auto simp add: Let_def)
qed

text \<open>
  C5. For every size class \<open>c\<close> in \<open>0 .. 4\<close>, the size setter (through
  \<open>_frame_control\<close>, on a bus that does not fail) writes \<open>COM14 = 0x18 + c\<close> when
  \<open>c > DIV1\<close> and \<open>0\<close> otherwise, \<open>SCALING_DCWCTR = min(c, DIV8) * 0x11\<close>, and
  \<open>SCALING_PCLK_DIV = 0xF0 + c\<close> when \<open>c > DIV1\<close> and \<open>0x08\<close> otherwise, as its
  second, third and fourth register transactions.
\<close>

theorem frame_control_clock_registers:
  assumes ok: "faults s = []"
    and c: "c \<in> {OV7670_SIZE_DIV1, OV7670_SIZE_DIV2, OV7670_SIZE_DIV4, OV7670_SIZE_DIV8,
                  OV7670_SIZE_DIV16}"
  shows "\<exists>s'. size_setter c s = (Inr (), s') \<and>
    reg_byte s' OV7670_REG_COM14 = (if c > OV7670_SIZE_DIV1 then 0x18 + c else 0) \<and>
    reg_byte s' OV7670_REG_SCALING_DCWCTR = min c OV7670_SIZE_DIV8 * 0x11 \<and>
    reg_byte s' OV7670_REG_SCALING_PCLK_DIV =
      (if c > OV7670_SIZE_DIV1 then 0xF0 + c else 0x08) \<and>
    take 3 (drop (length (trace s) + 1) (trace s')) =
      [BusWrite OV7670_REG_COM14 (if c > OV7670_SIZE_DIV1 then 0x18 + c else 0),
       BusWrite OV7670_REG_SCALING_DCWCTR (min c OV7670_SIZE_DIV8 * 0x11),
       BusWrite OV7670_REG_SCALING_PCLK_DIV
         (if c > OV7670_SIZE_DIV1 then 0xF0 + c else 0x08)]"
proof -
  from c obtain vstart hstart edge_offset pclk_delay
    where row: "window_row c = Inr (vstart, hstart, edge_offset, pclk_delay)"
    by (rule window_row_total)
  note run = size_setter_run [OF ok c row]
  consider "c = OV7670_SIZE_DIV1" | "c = OV7670_SIZE_DIV2" | "c = OV7670_SIZE_DIV4"
    | "c = OV7670_SIZE_DIV8" | "c = OV7670_SIZE_DIV16"
    using c by auto
  then show ?thesis
    unfolding run by cases (simp_all add: reg_byte_def ov_consts)
qed

theorem frame_control_clock_registers_witness:
  "faults (fresh (\<lambda>_. 0) []) = [] \<and>
   (\<exists>s'. size_setter OV7670_SIZE_DIV16 (fresh (\<lambda>_. 0) []) = (Inr (), s') \<and>
      reg_byte s' OV7670_REG_COM14 = 0x1C \<and>
      reg_byte s' OV7670_REG_SCALING_DCWCTR = 0x33 \<and>
      reg_byte s' OV7670_REG_SCALING_PCLK_DIV = 0xF4) \<and>
   (\<exists>s'. size_setter OV7670_SIZE_DIV1 (fresh (\<lambda>_. 0) []) = (Inr (), s') \<and>
      reg_byte s' OV7670_REG_COM14 = 0 \<and>
      reg_byte s' OV7670_REG_SCALING_DCWCTR = 0 \<and>
      reg_byte s' OV7670_REG_SCALING_PCLK_DIV = 0x08)"
proof -
  have f: "faults (fresh (\<lambda>_. 0) []) = []"
    by (simp add: fresh_def)
  have m16: "OV7670_SIZE_DIV16 \<in> {OV7670_SIZE_DIV1, OV7670_SIZE_DIV2, OV7670_SIZE_DIV4,
      OV7670_SIZE_DIV8, OV7670_SIZE_DIV16}"
    and m1: "OV7670_SIZE_DIV1 \<in> {OV7670_SIZE_DIV1, OV7670_SIZE_DIV2, OV7670_SIZE_DIV4,
      OV7670_SIZE_DIV8, OV7670_SIZE_DIV16}"
    by simp_all
  from frame_control_clock_registers [OF f m16] frame_control_clock_registers [OF f m1] f
  show ?thesis
    by (auto simp add: ov_consts)
qed


subsection \<open>Night mode, flip and colour space\<close>

lemma night_setter_run:
  assumes ok: "faults s = []"
    and m: "m \<in> {OV7670_NIGHT_MODE_OFF, OV7670_NIGHT_MODE_2, OV7670_NIGHT_MODE_4,
                  OV7670_NIGHT_MODE_8}"
  shows "night_setter m s =
    (Inr (),
     s\<lparr>regs := (regs s)
        (OV7670_REG_COM11 := word_of_int ((reg_byte s OV7670_REG_COM11 AND 0x1F) OR m)),
       trace := trace s @
        [BusRead OV7670_REG_COM11 (reg_byte s OV7670_REG_COM11),
         BusWrite OV7670_REG_COM11 ((reg_byte s OV7670_REG_COM11 AND 0x1F) OR m)],
       self_night := m\<rparr>)"
  using ok m by (auto simp add: night_setter_def reg_byte_def run_simps)

lemma night_bits:
  assumes "m = 0 \<or> m = 0xA0 \<or> m = 0xC0 \<or> m = (0xE0::int)"
  shows "((b AND 0x1F) OR m) AND 0x1F = b AND 0x1F"
    and "((b AND 0x1F) OR m) AND 0xE0 = m"
  using assms by (auto simp add: bit.conj_disj_distrib2 and.assoc)

lemma uint_night:
  assumes "m = 0 \<or> m = 0xA0 \<or> m = 0xC0 \<or> m = (0xE0::int)"
  shows "uint (word_of_int ((uint (w :: 8 word) AND 0x1F) OR m) :: 8 word) = (uint w AND 0x1F) OR m"
  using assms by (intro uint_byte) (auto simp add: byte_simps)

text \<open>
  C6. For each of the four night modes \<open>m\<close> (\<open>0\<close>, \<open>0xA0\<close>, \<open>0xC0\<close>, \<open>0xE0\<close>) and every
  byte \<open>b\<close> in \<open>COM11\<close>, the night setter (on a bus that does not fail) reads \<open>b\<close> and
  writes back \<open>(b & 0x1F) | m\<close>: the low five bits of \<open>COM11\<close> are kept, the top three
  bits become \<open>m\<close>, and afterwards the night getter returns \<open>m\<close>.
\<close>

theorem night_setter_top_three_bits:
  assumes ok: "faults s = []"
    and m: "m \<in> {OV7670_NIGHT_MODE_OFF, OV7670_NIGHT_MODE_2, OV7670_NIGHT_MODE_4,
                  OV7670_NIGHT_MODE_8}"
    and b: "b = reg_byte s OV7670_REG_COM11"
  shows "\<exists>s'. night_setter m s = (Inr (), s') \<and>
    trace s' = trace s @
      [BusRead OV7670_REG_COM11 b, BusWrite OV7670_REG_COM11 ((b AND 0x1F) OR m)] \<and>
    reg_byte s' OV7670_REG_COM11 = (b AND 0x1F) OR m \<and>
    reg_byte s' OV7670_REG_COM11 AND 0x1F = b AND 0x1F \<and>
    reg_byte s' OV7670_REG_COM11 AND 0xE0 = m \<and>
    night_getter s' = m"
proof -
  from m have m': "m = 0 \<or> m = 0xA0 \<or> m = 0xC0 \<or> m = 0xE0"
    by (auto simp add: ov_consts)
  have after: "reg_byte (snd (night_setter m s)) OV7670_REG_COM11 = (b AND 0x1F) OR m"
    unfolding night_setter_run [OF ok m] b
    by (simp add: reg_byte_def uint_night [OF m'])
  show ?thesis
    using after night_bits [OF m', of b]
    by (simp add: night_setter_run [OF ok m] b night_getter_def)
qed

theorem night_setter_top_three_bits_witness:
  "faults (fresh (\<lambda>_. 0x5B) []) = [] \<and>
   reg_byte (fresh (\<lambda>_. 0x5B) []) OV7670_REG_COM11 = 0x5B \<and>
   (\<exists>s'. night_setter OV7670_NIGHT_MODE_4 (fresh (\<lambda>_. 0x5B) []) = (Inr (), s') \<and>
      reg_byte s' OV7670_REG_COM11 = 0xDB \<and> night_getter s' = 0xC0)"
proof -
  have f: "faults (fresh (\<lambda>_. 0x5B) []) = []"
    by (simp add: fresh_def)
  have m: "OV7670_NIGHT_MODE_4 \<in> {OV7670_NIGHT_MODE_OFF, OV7670_NIGHT_MODE_2,
      OV7670_NIGHT_MODE_4, OV7670_NIGHT_MODE_8}"
    by simp
  have b: "0x5B = reg_byte (fresh (\<lambda>_. 0x5B) []) OV7670_REG_COM11"
    by (simp add: fresh_def reg_byte_def)
  from night_setter_top_three_bits [OF f m b] f b [symmetric] show ?thesis
    by (auto simp add: ov_consts)
qed


lemma set_flip_run:
  assumes ok: "faults s = []"
  shows "set_flip s =
    (Inr (),
     s\<lparr>regs := (regs s)
        (OV7670_REG_MVFP := word_of_int
           (let m = (if self_flip_x s then reg_byte s OV7670_REG_MVFP OR 0x20
                     else reg_byte s OV7670_REG_MVFP AND NOT 0x20)
            in if self_flip_y s then m OR 0x10 else m AND NOT 0x10)),
       trace := trace s @
        [BusRead OV7670_REG_MVFP (reg_byte s OV7670_REG_MVFP),
         BusWrite OV7670_REG_MVFP
           (let m = (if self_flip_x s then reg_byte s OV7670_REG_MVFP OR 0x20
                     else reg_byte s OV7670_REG_MVFP AND NOT 0x20)
            in if self_flip_y s then m OR 0x10 else m AND NOT 0x10)]\<rparr>)"
  using ok by (simp add: set_flip_def reg_byte_def run_simps)

lemma bit_32: "bit (32::int) n \<longleftrightarrow> n = 5"
  using bit_exp_iff [of 5 n, where ?'a = int] by simp

lemma bit_16: "bit (16::int) n \<longleftrightarrow> n = 4"
  using bit_exp_iff [of 4 n, where ?'a = int] by simp

lemma flip_x_only:
  "\<not> bit b 4 \<Longrightarrow> ((b OR 0x20) AND NOT 0x10) XOR b = (if bit b 5 then 0 else 0x20)"
  for b :: int
  by (rule bit_eqI) (auto simp add: bit_simps bit_32 bit_16)

lemma flip_byte:
  fixes b :: int and fx fy :: bool
  assumes "0 \<le> b" and "b < 256"
  defines "m \<equiv> if fx then b OR 0x20 else b AND NOT 0x20"
  defines "b' \<equiv> if fy then m OR 0x10 else m AND NOT 0x10"
  shows "0 \<le> b' \<and> b' < 256"
  using assms(1,2) unfolding b'_def m_def by (simp add: byte_simps)

lemma flip_bits:
  fixes b :: int and fx fy :: bool
  defines "m \<equiv> if fx then b OR 0x20 else b AND NOT 0x20"
  defines "b' \<equiv> if fy then m OR 0x10 else m AND NOT 0x10"
  shows "bit b' 5 = fx" and "bit b' 4 = fy" and "b' AND NOT 0x30 = b AND NOT 0x30"
  unfolding b'_def m_def
  by (simp_all add: bit_or_iff bit_and_iff bit_not_iff bit.conj_disj_distrib2 and.assoc)

text \<open>
  C7, as the code has it. For every byte \<open>b\<close> in \<open>MVFP\<close> and every pair of flip flags,
  \<open>_set_flip\<close> (on a bus that does not fail) performs exactly one read and one write of
  \<open>MVFP\<close>; the byte written has the mirror bit (\<open>0x20\<close>) as \<open>flip_x\<close> says and the vflip
  bit (\<open>0x10\<close>) as \<open>flip_y\<close> says, and every other bit as in \<open>b\<close>. With \<open>flip_x\<close> true
  and \<open>flip_y\<close> false, at most the mirror bit changes when the vflip bit of \<open>b\<close> is clear
  (as it is after the baseline table, which writes \<open>0x07\<close>); the vflip bit of \<open>b\<close> is
  cleared when it was set. The two setters store their flag and call \<open>_set_flip\<close>.
\<close>

theorem set_flip_touches_two_bits:
  assumes ok: "faults s = []"
    and b: "b = reg_byte s OV7670_REG_MVFP"
  shows "\<exists>s' b'. set_flip s = (Inr (), s') \<and>
    trace s' = trace s @ [BusRead OV7670_REG_MVFP b, BusWrite OV7670_REG_MVFP b'] \<and>
    reg_byte s' OV7670_REG_MVFP = b' \<and>
    bit b' 5 = self_flip_x s \<and>
    bit b' 4 = self_flip_y s \<and>
    b' AND NOT 0x30 = b AND NOT 0x30 \<and>
    (self_flip_x s \<and> \<not> self_flip_y s \<and> \<not> bit b 4 \<longrightarrow> b' XOR b \<in> {0, 0x20}) \<and>
    flip_x_setter v s = set_flip (s\<lparr>self_flip_x := (v \<noteq> 0)\<rparr>) \<and>
    flip_y_setter v s = set_flip (s\<lparr>self_flip_y := (v \<noteq> 0)\<rparr>)"
proof -
  define m where "m = (if self_flip_x s then b OR 0x20 else b AND NOT 0x20)"
  define b' where "b' = (if self_flip_y s then m OR 0x10 else m AND NOT 0x10)"
  have range: "0 \<le> b" "b < 256"
    using reg_byte_range [of s OV7670_REG_MVFP] by (simp_all add: b)
  have b'_range: "0 \<le> b' \<and> b' < 256"
    unfolding b'_def m_def by (rule flip_byte [OF range])
  have run: "set_flip s =
    (Inr (), s\<lparr>regs := (regs s)(OV7670_REG_MVFP := word_of_int b'),
       trace := trace s @ [BusRead OV7670_REG_MVFP b, BusWrite OV7670_REG_MVFP b']\<rparr>)"
    unfolding set_flip_run [OF ok] b'_def m_def b by (simp add: Let_def)
  have bits: "bit b' 5 = self_flip_x s" "bit b' 4 = self_flip_y s"
    "b' AND NOT 0x30 = b AND NOT 0x30"
    unfolding b'_def m_def by (rule flip_bits)+
  have one: "b' XOR b \<in> {0, 0x20}"
    if "self_flip_x s" "\<not> self_flip_y s" "\<not> bit b 4"
    using that flip_x_only [of b] by (simp add: b'_def m_def)
  have setters: "flip_x_setter v s = set_flip (s\<lparr>self_flip_x := (v \<noteq> 0)\<rparr>)"
    "flip_y_setter v s = set_flip (s\<lparr>self_flip_y := (v \<noteq> 0)\<rparr>)"
    by (simp_all add: flip_x_setter_def flip_y_setter_def and_then_def modify_def)
  have after: "reg_byte (snd (set_flip s)) OV7670_REG_MVFP = b'"
    unfolding run using b'_range by (simp add: reg_byte_def uint_byte)
  from run after bits one setters show ?thesis
    by (intro exI [of _ "snd (set_flip s)"] exI [of _ b']) simp
qed

theorem set_flip_touches_two_bits_witness:
  "faults (fresh (\<lambda>_. 0x07) [] \<lparr>self_flip_x := True\<rparr>) = [] \<and>
   0x07 = reg_byte (fresh (\<lambda>_. 0x07) [] \<lparr>self_flip_x := True\<rparr>) OV7670_REG_MVFP \<and>
   (\<exists>s'. set_flip (fresh (\<lambda>_. 0x07) [] \<lparr>self_flip_x := True\<rparr>) = (Inr (), s') \<and>
      trace s' = [BusRead OV7670_REG_MVFP 0x07, BusWrite OV7670_REG_MVFP 0x27] \<and>
      reg_byte s' OV7670_REG_MVFP = 0x27 \<and>
      reg_byte s' OV7670_REG_MVFP XOR 0x07 = 0x20)"
proof -
  let ?s = "fresh (\<lambda>_. 0x07) [] \<lparr>self_flip_x := True\<rparr>"
  have f: "faults ?s = []"
    by (simp add: fresh_def)
  have b: "0x07 = reg_byte ?s OV7670_REG_MVFP"
    by (simp add: fresh_def reg_byte_def)
  from set_flip_touches_two_bits [OF f b]
  obtain s' where run: "set_flip ?s = (Inr (), s')"
    by blast
  have "set_flip ?s = (Inr (), s') \<and>
      trace s' = [BusRead OV7670_REG_MVFP 0x07, BusWrite OV7670_REG_MVFP 0x27] \<and>
      reg_byte s' OV7670_REG_MVFP = 0x27 \<and>
      reg_byte s' OV7670_REG_MVFP XOR 0x07 = 0x20"
    using run by (auto simp add: set_flip_def fresh_def reg_byte_def run_simps)
  with f b show ?thesis
    by blast
qed

text \<open>
  C7 as stated fails: the claim lets the previous byte be any byte. When the vflip bit
  of \<open>MVFP\<close> is set while the stored \<open>flip_y\<close> is false, setting \<open>flip_x\<close> changes two
  bits: \<open>0x10\<close> becomes \<open>0x20\<close>.
\<close>

theorem flip_x_changes_two_bits_counterexample:
  "self_flip_y (fresh (\<lambda>_. 0x10) []) = False \<and>
   reg_byte (fresh (\<lambda>_. 0x10) []) OV7670_REG_MVFP = 0x10 \<and>
   fst (flip_x_setter 1 (fresh (\<lambda>_. 0x10) [])) = Inr () \<and>
   flip_x_getter (snd (flip_x_setter 1 (fresh (\<lambda>_. 0x10) []))) = True \<and>
   flip_y_getter (snd (flip_x_setter 1 (fresh (\<lambda>_. 0x10) []))) = False \<and>
   reg_byte (snd (flip_x_setter 1 (fresh (\<lambda>_. 0x10) []))) OV7670_REG_MVFP = 0x20 \<and>
   reg_byte (snd (flip_x_setter 1 (fresh (\<lambda>_. 0x10) []))) OV7670_REG_MVFP
     XOR reg_byte (fresh (\<lambda>_. 0x10) []) OV7670_REG_MVFP = 0x30 \<and>
   reg_byte (snd (flip_x_setter 1 (fresh (\<lambda>_. 0x10) []))) OV7670_REG_MVFP
     XOR reg_byte (fresh (\<lambda>_. 0x10) []) OV7670_REG_MVFP \<notin> {0, 0x20}"
  by (simp add: flip_x_setter_def flip_x_getter_def flip_y_getter_def set_flip_def fresh_def
      reg_byte_def run_simps)


subsection \<open>Register tables\<close>

lemma write_list_ok:
  "faults s = [] \<Longrightarrow> list_all (\<lambda>x. 0 \<le> x \<and> x < 256) l \<Longrightarrow> even (length l) \<Longrightarrow>
   write_list l s =
     (Inr (), s\<lparr>regs := store_list l (regs s), trace := trace s @ writes_of l\<rparr>)"
proof (induction l s rule: write_list.induct)
  case (1 s)
  then show ?case by simp
next
  case (2 reg s)
  then show ?case by simp
next
  case (3 reg v rest s)
  let ?s' = "s\<lparr>regs := (regs s)(reg := word_of_int v), trace := trace s @ [BusWrite reg v]\<rparr>"
  from 3(2,3) have w: "write_register reg v s = (Inr (), ?s')"
    by (simp add: write_register_ok)
  have "write_list rest ?s' =
      (Inr (), ?s'\<lparr>regs := store_list rest (regs ?s'), trace := trace ?s' @ writes_of rest\<rparr>)"
    by (rule 3(1) [OF w [symmetric] refl]) (use 3(2,3,4) in simp_all)
  with w show ?case
    by simp
qed

lemma store_list_other:
  "\<forall>v. BusWrite r v \<notin> set (writes_of l) \<Longrightarrow> store_list l rg r = rg r"
  by (induction l rg rule: store_list.induct) auto

lemma rgb_bytes: "list_all (\<lambda>x. 0 \<le> x \<and> x < 256) OV7670_rgb \<and> even (length OV7670_rgb)"
  by (simp add: OV7670_rgb_def ov_consts)

lemma yuv_bytes: "list_all (\<lambda>x. 0 \<le> x \<and> x < 256) OV7670_yuv \<and> even (length OV7670_yuv)"
  by (simp add: OV7670_yuv_def ov_consts)

lemma init_bytes: "list_all (\<lambda>x. 0 \<le> x \<and> x < 256) OV7670_init \<and> even (length OV7670_init)"
  by (simp add: OV7670_init_def ov_consts)

lemma colorspace_setter_run:
  assumes ok: "faults s = []"
  shows "colorspace_setter c s =
    (Inr (),
     s\<lparr>regs := store_list (if c = OV7670_COLOR_RGB then OV7670_rgb else OV7670_yuv) (regs s),
       trace := trace s @ writes_of (if c = OV7670_COLOR_RGB then OV7670_rgb else OV7670_yuv),
       self_colorspace := Some c\<rparr>)"
  using ok rgb_bytes yuv_bytes
  by (simp add: colorspace_setter_def and_then_def modify_def write_list_ok)

lemma colorspace_kept_write_register:
  "self_colorspace (snd (write_register reg v s)) = self_colorspace s"
  by (simp add: write_register_def next_fault_def split: list.splits bool.splits)

lemma colorspace_kept_write_list:
  "self_colorspace (snd (write_list l s)) = self_colorspace s"
proof (induction l s rule: write_list.induct)
  case (3 reg v rest s)
  show ?case
  proof (cases "write_register reg v s")
    case (Pair res s')
    with 3 colorspace_kept_write_register [of reg v s] show ?thesis
      by (cases res) simp_all
  qed
qed simp_all

text \<open>
  C10. The colour space setter validates nothing: for every integer \<open>c\<close> it stores \<open>c\<close>
  first, so that the getter returns \<open>c\<close> afterwards (also when the bus fails), and then
  sends the RGB565 table if \<open>c = OV7670_COLOR_RGB\<close> and the YUV table for every other
  \<open>c\<close>; on a bus that does not fail the writes of that table, and nothing else, are
  what it emits.
\<close>

theorem colorspace_setter_no_validation:
  "colorspace_getter (snd (colorspace_setter c s)) = Some c \<and>
   (faults s = [] \<longrightarrow>
      fst (colorspace_setter c s) = Inr () \<and>
      trace (snd (colorspace_setter c s)) =
        trace s @ writes_of (if c = OV7670_COLOR_RGB then OV7670_rgb else OV7670_yuv) \<and>
      regs (snd (colorspace_setter c s)) =
        store_list (if c = OV7670_COLOR_RGB then OV7670_rgb else OV7670_yuv) (regs s)) \<and>
   writes_of OV7670_rgb =
     [BusWrite OV7670_REG_COM7 OV7670_COM7_RGB, BusWrite OV7670_REG_RGB444 0,
      BusWrite OV7670_REG_COM15 (OV7670_COM15_RGB565 OR OV7670_COM15_R00FF)] \<and>
   writes_of OV7670_yuv =
     [BusWrite OV7670_REG_COM7 OV7670_COM7_YUV,
      BusWrite OV7670_REG_COM15 OV7670_COM15_R00FF]"
proof -
  have stored: "colorspace_getter (snd (colorspace_setter c s)) = Some c"
    by (simp add: colorspace_getter_def colorspace_setter_def and_then_def modify_def
        colorspace_kept_write_list)
  have tables: "writes_of OV7670_rgb =
     [BusWrite OV7670_REG_COM7 OV7670_COM7_RGB, BusWrite OV7670_REG_RGB444 0,
      BusWrite OV7670_REG_COM15 (OV7670_COM15_RGB565 OR OV7670_COM15_R00FF)]"
    "writes_of OV7670_yuv =
     [BusWrite OV7670_REG_COM7 OV7670_COM7_YUV,
      BusWrite OV7670_REG_COM15 OV7670_COM15_R00FF]"
    by (simp_all add: OV7670_rgb_def OV7670_yuv_def)
  from stored tables show ?thesis
    by (simp add: colorspace_setter_run)
qed

theorem colorspace_setter_no_validation_witness:
  "faults (fresh (\<lambda>_. 0) []) = [] \<and>
   colorspace_getter (snd (colorspace_setter 7 (fresh (\<lambda>_. 0) []))) = Some 7 \<and>
   fst (colorspace_setter 7 (fresh (\<lambda>_. 0) [])) = Inr () \<and>
   trace (snd (colorspace_setter 7 (fresh (\<lambda>_. 0) []))) = [BusWrite 0x12 0x00, BusWrite 0x40 0xC0] \<and>
   colorspace_getter (snd (colorspace_setter 0 (fresh (\<lambda>_. 0) []))) = Some 0 \<and>
   trace (snd (colorspace_setter 0 (fresh (\<lambda>_. 0) []))) =
     [BusWrite 0x12 0x04, BusWrite 0x8C 0x00, BusWrite 0x40 0xD0]"
proof -
  have f: "faults (fresh (\<lambda>_. 0) []) = []"
    by (simp add: fresh_def)
  have t: "trace (fresh (\<lambda>_. 0) []) = []"
    by (simp add: fresh_def)
  from colorspace_setter_no_validation [of 7 "fresh (\<lambda>_. 0) []"]
    colorspace_setter_no_validation [of 0 "fresh (\<lambda>_. 0) []"] f t
  show ?thesis
    by (simp add: ov_consts)
qed


subsection \<open>Construction\<close>

lemma init_table_keeps_scaling:
  "store_list OV7670_init rg OV7670_REG_SCALING_XSC = rg OV7670_REG_SCALING_XSC"
  "store_list OV7670_init rg OV7670_REG_SCALING_YSC = rg OV7670_REG_SCALING_YSC"
  by (rule store_list_other; simp add: OV7670_init_def ov_consts)+

lemma rgb_table_keeps_scaling:
  "store_list OV7670_rgb rg OV7670_REG_SCALING_XSC = rg OV7670_REG_SCALING_XSC"
  "store_list OV7670_rgb rg OV7670_REG_SCALING_YSC = rg OV7670_REG_SCALING_YSC"
  by (rule store_list_other; simp add: OV7670_rgb_def ov_consts)+

lemmas size_setter_DIV8 = size_setter_run [OF _ _ window_rows(4)]

lemma init_run:
  fixes r :: "int \<Rightarrow> 8 word"
  defines "x \<equiv> uint (r OV7670_REG_SCALING_XSC)"
    and "y \<equiv> uint (r OV7670_REG_SCALING_YSC)"
  shows "fst (init shutdown reset (fresh r [])) = Inr () \<and>
    trace (snd (init shutdown reset (fresh r []))) =
      (if shutdown then [ShutdownPin True, ShutdownPin False] else []) @
      (if reset then [ResetPin False, ResetPin True]
       else [BusWrite OV7670_REG_COM7 OV7670_COM7_RESET]) @
      writes_of OV7670_rgb @
      writes_of OV7670_init @
      [BusWrite OV7670_REG_COM3 OV7670_COM3_DCWEN,
       BusWrite OV7670_REG_COM14 0x1B,
       BusWrite OV7670_REG_SCALING_DCWCTR 0x33,
       BusWrite OV7670_REG_SCALING_PCLK_DIV 0xF3,
       BusRead OV7670_REG_SCALING_XSC x,
       BusRead OV7670_REG_SCALING_YSC y,
       BusWrite OV7670_REG_SCALING_XSC ((x AND 0x80) OR 0x20),
       BusWrite OV7670_REG_SCALING_YSC ((y AND 0x80) OR 0x20),
       BusWrite OV7670_REG_HSTART 26,
       BusWrite OV7670_REG_HSTOP 8,
       BusWrite OV7670_REG_HREF 18,
       BusWrite OV7670_REG_VSTART 3,
       BusWrite OV7670_REG_VSTOP 123,
       BusWrite OV7670_REG_VREF 0,
       BusWrite OV7670_REG_SCALING_PCLK_DELAY 2] @
      [BusRead OV7670_REG_SCALING_XSC ((x AND 0x80) OR 0x20),
       BusRead OV7670_REG_SCALING_YSC ((y AND 0x80) OR 0x20),
       BusWrite OV7670_REG_SCALING_XSC (((x AND 0x80) OR 0x20) AND NOT 0x80),
       BusWrite OV7670_REG_SCALING_YSC (((y AND 0x80) OR 0x20) AND NOT 0x80)] \<and>
    self_colorspace (snd (init shutdown reset (fresh r []))) = Some OV7670_COLOR_RGB \<and>
    self_size (snd (init shutdown reset (fresh r []))) = Some OV7670_SIZE_DIV8 \<and>
    self_test_pattern (snd (init shutdown reset (fresh r []))) = None \<and>
    self_flip_x (snd (init shutdown reset (fresh r []))) = False \<and>
    self_flip_y (snd (init shutdown reset (fresh r []))) = False \<and>
    self_night (snd (init shutdown reset (fresh r []))) = OV7670_NIGHT_MODE_OFF \<and>
    faults (snd (init shutdown reset (fresh r []))) = [] \<and>
    reg_byte (snd (init shutdown reset (fresh r []))) OV7670_REG_SCALING_XSC = 0x20 \<and>
    reg_byte (snd (init shutdown reset (fresh r []))) OV7670_REG_SCALING_YSC = 0x20"
  unfolding x_def y_def
  by (simp add: init_def fresh_def emit_def skip_def colorspace_setter_run write_list_ok
      init_bytes size_setter_DIV8 [unfolded ov_consts] test_pattern_setter_run reg_byte_def
      init_table_keeps_scaling [unfolded ov_consts] rgb_table_keeps_scaling [unfolded ov_consts]
      uint_zoom bit.conj_disj_distrib2 and.assoc run_simps)


text \<open>
  C3, as the code has it. Construction emits: the levels on the shutdown and reset
  lines (or, without a reset pin, the soft reset written to \<open>COM7\<close>); then the default
  colour space table (RGB); then every write of the baseline table; then the
  transactions of the default size (\<open>DIV8\<close>); then those of the default test pattern.
  So the size and test pattern writes come after every baseline write, and the colour
  space writes come before all of them. \<open>x\<close> and \<open>y\<close> are the bytes the sensor held in
  \<open>SCALING_XSC\<close> and \<open>SCALING_YSC\<close>.
\<close>

theorem init_emits_colorspace_before_baseline:
  fixes r :: "int \<Rightarrow> 8 word"
  defines "x \<equiv> uint (r OV7670_REG_SCALING_XSC)"
    and "y \<equiv> uint (r OV7670_REG_SCALING_YSC)"
  shows "fst (init shutdown reset (fresh r [])) = Inr () \<and>
    trace (snd (init shutdown reset (fresh r []))) =
      (if shutdown then [ShutdownPin True, ShutdownPin False] else []) @
      (if reset then [ResetPin False, ResetPin True]
       else [BusWrite OV7670_REG_COM7 OV7670_COM7_RESET]) @
      writes_of OV7670_rgb @
      writes_of OV7670_init @
      [BusWrite OV7670_REG_COM3 OV7670_COM3_DCWEN,
       BusWrite OV7670_REG_COM14 0x1B,
       BusWrite OV7670_REG_SCALING_DCWCTR 0x33,
       BusWrite OV7670_REG_SCALING_PCLK_DIV 0xF3,
       BusRead OV7670_REG_SCALING_XSC x,
       BusRead OV7670_REG_SCALING_YSC y,
       BusWrite OV7670_REG_SCALING_XSC ((x AND 0x80) OR 0x20),
       BusWrite OV7670_REG_SCALING_YSC ((y AND 0x80) OR 0x20),
       BusWrite OV7670_REG_HSTART 26,
       BusWrite OV7670_REG_HSTOP 8,
       BusWrite OV7670_REG_HREF 18,
       BusWrite OV7670_REG_VSTART 3,
       BusWrite OV7670_REG_VSTOP 123,
       BusWrite OV7670_REG_VREF 0,
       BusWrite OV7670_REG_SCALING_PCLK_DELAY 2] @
      [BusRead OV7670_REG_SCALING_XSC ((x AND 0x80) OR 0x20),
       BusRead OV7670_REG_SCALING_YSC ((y AND 0x80) OR 0x20),
       BusWrite OV7670_REG_SCALING_XSC (((x AND 0x80) OR 0x20) AND NOT 0x80),
       BusWrite OV7670_REG_SCALING_YSC (((y AND 0x80) OR 0x20) AND NOT 0x80)]"
  unfolding x_def y_def using init_run [of shutdown reset r] by simp

theorem init_emits_colorspace_before_baseline_witness:
  "fst (init False True (fresh (\<lambda>_. 0) [])) = Inr () \<and>
   take 6 (trace (snd (init False True (fresh (\<lambda>_. 0) [])))) =
     [ResetPin False, ResetPin True,
      BusWrite 0x12 0x04, BusWrite 0x8C 0x00, BusWrite 0x40 0xD0,
      BusWrite 0x3A 0x04] \<and>
   length (trace (snd (init False True (fresh (\<lambda>_. 0) [])))) = 2 + 3 + 97 + 15 + 4"
  using init_emits_colorspace_before_baseline [of False True "\<lambda>_. 0"]
  by (simp add: OV7670_rgb_def OV7670_init_def ov_consts)

text \<open>
  C3 as stated fails: the claim puts the colour space writes after every write of the
  baseline table. With a reset pin, so that construction writes \<open>COM7\<close> for the colour
  space only, the third event of construction is the colour space table's write of
  \<open>COM7\<close>, and the sixth is the baseline table's first write (\<open>TSLB\<close>).
\<close>

theorem init_colorspace_first_counterexample:
  "\<not> (\<forall>i j. i < length (trace (snd (init False True (fresh (\<lambda>_. 0) [])))) \<and>
            j < length (trace (snd (init False True (fresh (\<lambda>_. 0) [])))) \<and>
            trace (snd (init False True (fresh (\<lambda>_. 0) []))) ! i \<in> set (writes_of OV7670_rgb) \<and>
            trace (snd (init False True (fresh (\<lambda>_. 0) []))) ! j \<in> set (writes_of OV7670_init)
          \<longrightarrow> j < i)"
proof
  let ?tr = "trace (snd (init False True (fresh (\<lambda>_. 0) [])))"
  assume order: "\<forall>i j. i < length ?tr \<and> j < length ?tr \<and>
      ?tr ! i \<in> set (writes_of OV7670_rgb) \<and> ?tr ! j \<in> set (writes_of OV7670_init)
      \<longrightarrow> j < i"
  have tr: "?tr = [ResetPin False, ResetPin True] @ writes_of OV7670_rgb @ writes_of OV7670_init @
      drop 102 ?tr"
    using init_run [of False True "\<lambda>_. 0"]
    by (simp add: OV7670_rgb_def OV7670_init_def)
  have len: "2 < length ?tr" "5 < length ?tr"
    using init_run [of False True "\<lambda>_. 0"] by simp_all
  have i: "?tr ! 2 = BusWrite OV7670_REG_COM7 OV7670_COM7_RGB"
    by (subst tr) (simp add: OV7670_rgb_def)
  have j: "?tr ! 5 = BusWrite OV7670_REG_TSLB OV7670_TSLB_YLAST"
    by (subst tr) (simp add: OV7670_rgb_def OV7670_init_def)
  have "?tr ! 2 \<in> set (writes_of OV7670_rgb)"
    unfolding i by (simp add: OV7670_rgb_def)
  moreover have "?tr ! 5 \<in> set (writes_of OV7670_init)"
    unfolding j by (simp add: OV7670_init_def)
  ultimately have "(5::nat) < 2"
    using order len by blast
  then show False
    by simp
qed


subsection \<open>Which attributes a setter touches\<close>

lemma and_then_keeps:
  assumes "\<And>s. f (snd (m s)) = f s" and "\<And>a s. f (snd (k a s)) = f s"
  shows "f (snd (and_then m k s)) = f s"
proof (cases "m s")
  case (Pair res s1)
  from assms(1) [of s] Pair have s1: "f s1 = f s"
    by simp
  show ?thesis
  proof (cases res)
    case (Inl e)
    with Pair s1 show ?thesis
      by (simp add: and_then_def)
  next
    case (Inr a)
    with Pair s1 assms(2) [of a s1] show ?thesis
      by (simp add: and_then_def)
  qed
qed

lemma and_then_Inl:
  assumes "and_then m k s = (Inl e, s')"
  shows "m s = (Inl e, s') \<or> (\<exists>a s1. m s = (Inr a, s1) \<and> k a s1 = (Inl e, s'))"
proof (cases "m s")
  case (Pair res s1)
  with assms show ?thesis
    by (cases res) (simp_all add: and_then_def)
qed

lemma write_register_keeps:
  "self_size (snd (write_register reg v s)) = self_size s"
  "self_night (snd (write_register reg v s)) = self_night s"
  "self_test_pattern (snd (write_register reg v s)) = self_test_pattern s"
  by (simp_all add: write_register_def next_fault_def split: list.splits bool.splits)

lemma read_register_keeps:
  "self_size (snd (read_register reg s)) = self_size s"
  "self_night (snd (read_register reg s)) = self_night s"
  "self_test_pattern (snd (read_register reg s)) = self_test_pattern s"
  by (simp_all add: read_register_def next_fault_def split: list.splits bool.splits)

lemma frame_control_keeps_size:
  "self_size (snd (frame_control sz vstart hstart edge_offset pclk_delay s)) = self_size s"
  unfolding frame_control_def Let_def
  by (intro and_then_keeps [where f = self_size] write_register_keeps read_register_keeps)

lemma test_pattern_setter_keeps_pattern:
  "self_test_pattern (snd (test_pattern_setter pattern s)) = self_test_pattern s"
  unfolding test_pattern_setter_def Let_def
  by (intro and_then_keeps [where f = self_test_pattern] write_register_keeps
      read_register_keeps)

text \<open>
  C2 (a defect of the code). The test pattern setter never assigns
  \<open>self._test_pattern\<close>: whatever pattern it is given, and whatever the bus does, the
  getter returns afterwards what it returned before. After construction that is
  \<open>None\<close>: setting \<open>OV7670_TEST_PATTERN_COLOR_BAR\<close> puts the pattern into the registers
  (bit 7 of \<open>SCALING_YSC\<close>), and the getter still returns \<open>None\<close>, not \<open>2\<close>.
\<close>

theorem test_pattern_setter_stores_nothing:
  "(\<forall>p s. test_pattern_getter (snd (test_pattern_setter p s)) = test_pattern_getter s) \<and>
   (\<exists>s1 s2. init False False (fresh (\<lambda>_. 0) []) = (Inr (), s1) \<and>
      test_pattern_getter s1 = None \<and>
      test_pattern_setter OV7670_TEST_PATTERN_COLOR_BAR s1 = (Inr (), s2) \<and>
      reg_byte s2 OV7670_REG_SCALING_XSC = 0x20 \<and>
      reg_byte s2 OV7670_REG_SCALING_YSC = 0xA0 \<and>
      test_pattern_getter s2 = None)"
proof -
  let ?s1 = "snd (init False False (fresh (\<lambda>_. 0) []))"
  let ?s2 = "snd (test_pattern_setter OV7670_TEST_PATTERN_COLOR_BAR ?s1)"
  note run = init_run [of False False "\<lambda>_. 0"]
  from run have s1: "init False False (fresh (\<lambda>_. 0) []) = (Inr (), ?s1)"
    by (simp add: prod_eq_iff)
  from run have ok: "faults ?s1 = []"
    by simp
  from run have none: "test_pattern_getter ?s1 = None"
    by (simp add: test_pattern_getter_def)
  from run have regs1: "uint (regs ?s1 OV7670_REG_SCALING_XSC) = 0x20"
    "uint (regs ?s1 OV7670_REG_SCALING_YSC) = 0x20"
    by (simp_all add: reg_byte_def)
  have s2: "test_pattern_setter OV7670_TEST_PATTERN_COLOR_BAR ?s1 = (Inr (), ?s2)"
    by (simp add: test_pattern_setter_run [OF ok])
  have regs2: "reg_byte ?s2 OV7670_REG_SCALING_XSC = 0x20"
    "reg_byte ?s2 OV7670_REG_SCALING_YSC = 0xA0"
    using regs1
    by (simp_all add: test_pattern_setter_run [OF ok] reg_byte_def ov_consts)
  have same: "test_pattern_getter (snd (test_pattern_setter p s)) = test_pattern_getter s"
    for p s
    by (simp add: test_pattern_getter_def test_pattern_setter_keeps_pattern)
  from same [of OV7670_TEST_PATTERN_COLOR_BAR ?s1] none
  have "test_pattern_getter ?s2 = None"
    by simp
  with s1 none s2 regs2 same show ?thesis
    by blast
qed


subsection \<open>Setters on a bus that fails\<close>

lemma size_setter_error_keeps_size:
  assumes "size_setter c s = (Inl e, s')"
  shows "self_size s' = self_size s"
proof (cases "window_row c")
  case (Inl e')
  with assms show ?thesis
    by (simp add: size_setter_def)
next
  case (Inr row)
  obtain vstart hstart edge_offset pclk_delay
    where row: "row = (vstart, hstart, edge_offset, pclk_delay)"
    by (cases row) auto
  let ?fc = "frame_control c vstart hstart edge_offset pclk_delay"
  from assms Inr row
  have "and_then ?fc (\<lambda>_. modify (\<lambda>s. s\<lparr>self_size := Some c\<rparr>)) s = (Inl e, s')"
    by (simp add: size_setter_def)
  then have "?fc s = (Inl e, s')"
    by (auto dest!: and_then_Inl simp add: modify_def)
  with frame_control_keeps_size [of c vstart hstart edge_offset pclk_delay s]
  show ?thesis
    by simp
qed

lemma size_setter_ok_stores_size:
  assumes "size_setter c s = (Inr u, s')"
  shows "self_size s' = Some c"
proof (cases "window_row c")
  case (Inl e')
  with assms show ?thesis
    by (simp add: size_setter_def)
next
  case (Inr row)
  obtain vstart hstart edge_offset pclk_delay
    where row: "row = (vstart, hstart, edge_offset, pclk_delay)"
    by (cases row) auto
  from assms Inr row show ?thesis
    by (cases "frame_control c vstart hstart edge_offset pclk_delay s")
      (auto simp add: size_setter_def and_then_def modify_def split: sum.splits)
qed

lemma night_setter_error_keeps_night:
  assumes "night_setter v s = (Inl e, s')"
  shows "self_night s' = self_night s"
proof -
  from assms have "read_register OV7670_REG_COM11 s = (Inl e, s') \<or>
      (\<exists>com11 s1. read_register OV7670_REG_COM11 s = (Inr com11, s1) \<and>
         write_register OV7670_REG_COM11 ((com11 AND 0b00011111) OR v) s1 = (Inl e, s'))"
    by (auto dest!: and_then_Inl simp add: night_setter_def modify_def)
  then show ?thesis
  proof
    assume "read_register OV7670_REG_COM11 s = (Inl e, s')"
    with read_register_keeps(2) [of OV7670_REG_COM11 s] show ?thesis
      by simp
  next
    assume "\<exists>com11 s1. read_register OV7670_REG_COM11 s = (Inr com11, s1) \<and>
         write_register OV7670_REG_COM11 ((com11 AND 0b00011111) OR v) s1 = (Inl e, s')"
    then obtain com11 s1 where r: "read_register OV7670_REG_COM11 s = (Inr com11, s1)"
      and w: "write_register OV7670_REG_COM11 ((com11 AND 0b00011111) OR v) s1 = (Inl e, s')"
      by blast
    from read_register_keeps(2) [of OV7670_REG_COM11 s] r have "self_night s1 = self_night s"
      by simp
    moreover from write_register_keeps(2) [of OV7670_REG_COM11 "(com11 AND 0b00011111) OR v" s1] w
    have "self_night s' = self_night s1"
      by simp
    ultimately show ?thesis
      by simp
  qed
qed

lemma night_setter_ok_stores_night:
  assumes "night_setter v s = (Inr u, s')"
  shows "self_night s' = v"
  using assms
  by (auto simp add: night_setter_def and_then_def modify_def split: prod.splits sum.splits)

lemma transacts_write_register:
  assumes "0 \<le> reg" "reg < 256" "0 \<le> v" "v < 256" "n = 1"
  shows "transacts n (\<lambda>_. True) (write_register reg v)"
  using assms
  by (auto simp add: transacts_def write_register_def next_fault_def take_Suc
      split: list.splits bool.splits)

lemma transacts_read_register:
  assumes "0 \<le> reg" "reg < 256" "n = 1"
  shows "transacts n (\<lambda>x. 0 \<le> x \<and> x < 256) (read_register reg)"
  using assms
  by (auto simp add: transacts_def read_register_def next_fault_def take_Suc reg_byte_range
      split: list.splits bool.splits)

lemma transacts_modify:
  assumes "\<And>s. faults (f s) = faults s" "n = 0"
  shows "transacts n (\<lambda>_. True) (modify f)"
  using assms by (simp add: transacts_def modify_def)

lemma transacts_and_then:
  assumes m: "transacts a P m"
    and k: "\<And>x. P x \<Longrightarrow> transacts b Q (k x)"
  shows "transacts (a + b) Q (and_then m k)"
  unfolding transacts_def
proof
  fix s
  obtain res s1 where ms: "m s = (res, s1)"
    by (cases "m s")
  have split: "set (take (a + b) (faults s)) =
      set (take a (faults s)) \<union> set (take b (drop a (faults s)))"
    by (simp add: take_add)
  show "case and_then m k s of
      (Inr x, s') \<Rightarrow> Q x \<and> faults s' = drop (a + b) (faults s) \<and>
        True \<notin> set (take (a + b) (faults s))
    | (Inl e, s') \<Rightarrow> e = OSError \<and> True \<in> set (take (a + b) (faults s))"
  proof (cases res)
    case (Inl e)
    with m ms have "e = OSError \<and> True \<in> set (take a (faults s))"
      by (auto simp add: transacts_def dest: spec [of _ s])
    with Inl ms split show ?thesis
      by (simp add: and_then_def)
  next
    case (Inr x)
    with m ms have x: "P x" and s1: "faults s1 = drop a (faults s)"
      and none: "True \<notin> set (take a (faults s))"
      by (auto simp add: transacts_def dest: spec [of _ s])
    obtain res2 s2 where ks: "k x s1 = (res2, s2)"
      by (cases "k x s1")
    from k [OF x] ks have
      "case res2 of
         Inr z \<Rightarrow> Q z \<and> faults s2 = drop b (faults s1) \<and> True \<notin> set (take b (faults s1))
       | Inl e \<Rightarrow> e = OSError \<and> True \<in> set (take b (faults s1))"
      by (auto simp add: transacts_def dest: spec [of _ s1] split: sum.splits)
    with Inr ms ks s1 none split show ?thesis
      by (cases res2) (simp_all add: and_then_def add.commute)
  qed
qed

lemma transacts_step_write:
  assumes "0 \<le> reg" "reg < 256" "0 \<le> v" "v < 256"
    and "transacts (n - 1) Q k"
    and "0 < n"
  shows "transacts n Q (and_then (write_register reg v) (\<lambda>_. k))"
  using transacts_and_then [of 1 "\<lambda>_. True" "write_register reg v" "n - 1" Q "\<lambda>_. k"]
    transacts_write_register [of reg v 1] assms
  by simp

lemma transacts_step_read:
  assumes "0 \<le> reg" "reg < 256"
    and "\<And>x. 0 \<le> x \<Longrightarrow> x < 256 \<Longrightarrow> transacts (n - 1) Q (k x)"
    and "0 < n"
  shows "transacts n Q (and_then (read_register reg) k)"
  using transacts_and_then [of 1 "\<lambda>x. 0 \<le> x \<and> x < 256" "read_register reg" "n - 1" Q k]
    transacts_read_register [of reg 1] assms
  by simp

lemmas transacts_intros =
  transacts_step_write transacts_step_read transacts_write_register transacts_modify

lemma frame_control_transacts:
  assumes "(sz, vstart, hstart, edge_offset, pclk_delay) \<in>
      {(0, 9, 162, 2, 2), (1, 10, 174, 0, 2), (2, 11, 186, 2, 2), (3, 12, 210, 0, 2),
       (4, 15, 252, 3, 2)}"
  shows "transacts 15 (\<lambda>_. True) (frame_control sz vstart hstart edge_offset pclk_delay)"
proof -
  have row0: "transacts 15 (\<lambda>_. True) (frame_control 0 9 162 2 2)"
    unfolding frame_control_def Let_def
    by (intro transacts_intros) (simp_all add: ov_consts byte_simps)
  have row1: "transacts 15 (\<lambda>_. True) (frame_control 1 10 174 0 2)"
    unfolding frame_control_def Let_def
    by (intro transacts_intros) (simp_all add: ov_consts byte_simps)
  have row2: "transacts 15 (\<lambda>_. True) (frame_control 2 11 186 2 2)"
    unfolding frame_control_def Let_def
    by (intro transacts_intros) (simp_all add: ov_consts byte_simps)
  have row3: "transacts 15 (\<lambda>_. True) (frame_control 3 12 210 0 2)"
    unfolding frame_control_def Let_def
    by (intro transacts_intros) (simp_all add: ov_consts byte_simps)
  have row4: "transacts 15 (\<lambda>_. True) (frame_control 4 15 252 3 2)"
    unfolding frame_control_def Let_def
    by (intro transacts_intros) (simp_all add: ov_consts byte_simps)
  from assms row0 row1 row2 row3 row4 show ?thesis
    by auto
qed

lemma size_setter_transacts:
  assumes "c \<in> {OV7670_SIZE_DIV1, OV7670_SIZE_DIV2, OV7670_SIZE_DIV4, OV7670_SIZE_DIV8,
                 OV7670_SIZE_DIV16}"
  shows "transacts 15 (\<lambda>_. True) (size_setter c)"
proof -
  from assms obtain vstart hstart edge_offset pclk_delay
    where row: "window_row c = Inr (vstart, hstart, edge_offset, pclk_delay)"
    by (rule window_row_total)
  consider "c = OV7670_SIZE_DIV1" | "c = OV7670_SIZE_DIV2" | "c = OV7670_SIZE_DIV4"
    | "c = OV7670_SIZE_DIV8" | "c = OV7670_SIZE_DIV16"
    using assms by auto
  then have mem: "(c, vstart, hstart, edge_offset, pclk_delay) \<in>
      {(0, 9, 162, 2, 2), (1, 10, 174, 0, 2), (2, 11, 186, 2, 2), (3, 12, 210, 0, 2),
       (4, 15, 252, 3, 2)}"
  proof cases
    case 1
    with row have "vstart = 9" "hstart = 162" "edge_offset = 2" "pclk_delay = 2"
      by (simp_all add: window_rows)
    with 1 show ?thesis by (simp add: ov_consts)
  next
    case 2
    with row have "vstart = 10" "hstart = 174" "edge_offset = 0" "pclk_delay = 2"
      by (simp_all add: window_rows)
    with 2 show ?thesis by (simp add: ov_consts)
  next
    case 3
    with row have "vstart = 11" "hstart = 186" "edge_offset = 2" "pclk_delay = 2"
      by (simp_all add: window_rows)
    with 3 show ?thesis by (simp add: ov_consts)
  next
    case 4
    with row have "vstart = 12" "hstart = 210" "edge_offset = 0" "pclk_delay = 2"
      by (simp_all add: window_rows)
    with 4 show ?thesis by (simp add: ov_consts)
  next
    case 5
    with row have "vstart = 15" "hstart = 252" "edge_offset = 3" "pclk_delay = 2"
      by (simp_all add: window_rows)
    with 5 show ?thesis by (simp add: ov_consts)
  qed
  have eq: "size_setter c =
      and_then (frame_control c vstart hstart edge_offset pclk_delay)
        (\<lambda>_. modify (\<lambda>s. s\<lparr>self_size := Some c\<rparr>))"
    using row by (simp add: size_setter_def fun_eq_iff)
  have "transacts (15 + 0) (\<lambda>_. True)
      (and_then (frame_control c vstart hstart edge_offset pclk_delay)
        (\<lambda>_. modify (\<lambda>s. s\<lparr>self_size := Some c\<rparr>)))"
    by (rule transacts_and_then [OF frame_control_transacts [OF mem]])
      (simp add: transacts_modify)
  then show ?thesis
    by (simp add: eq)
qed

lemma night_setter_transacts:
  assumes "m \<in> {OV7670_NIGHT_MODE_OFF, OV7670_NIGHT_MODE_2, OV7670_NIGHT_MODE_4,
                 OV7670_NIGHT_MODE_8}"
  shows "transacts 2 (\<lambda>_. True) (night_setter m)"
proof -
  from assms have m: "0 \<le> m" "m < 256"
    by (auto simp add: ov_consts)
  show ?thesis
    unfolding night_setter_def
    by (intro transacts_intros) (simp_all add: ov_consts byte_simps m)
qed

lemma transacts_fault:
  assumes "transacts n P m" and "True \<in> set (take n (faults s))"
  shows "fst (m s) = Inl OSError"
proof (cases "m s")
  case (Pair res s')
  with assms show ?thesis
    by (cases res) (auto simp add: transacts_def dest: spec [of _ s])
qed

lemma transacts_no_fault:
  fixes x :: unit
  assumes "transacts n P m" and "True \<notin> set (take n (faults s))"
  shows "fst (m s) = Inr x"
proof (cases "m s")
  case (Pair res s')
  with assms show ?thesis
    by (cases res) (auto simp add: transacts_def dest: spec [of _ s])
qed

text \<open>
  C9. The size setter and the night setter assign their attribute as their last
  statement, after all register transactions. Whenever either of them raises (a bus
  error, or any other exception), the stored \<open>_size\<close>, respectively \<open>_night\<close>, is what it
  was, so the getter still returns the value from before the call; when it returns, the
  new value is stored. For a size class, the first of the setter's 15 transactions that
  fails makes it raise \<open>OSError\<close>, and so does either of the night setter's 2
  transactions for a night mode; without such a failure they return.
\<close>

theorem setters_store_after_all_transactions:
  "(size_setter c s = (Inl e, s') \<longrightarrow> size_getter s' = size_getter s) \<and>
   (size_setter c s = (Inr u, s') \<longrightarrow> size_getter s' = Some c) \<and>
   (night_setter v s = (Inl e, s') \<longrightarrow> night_getter s' = night_getter s) \<and>
   (night_setter v s = (Inr u, s') \<longrightarrow> night_getter s' = v) \<and>
   (c \<in> {OV7670_SIZE_DIV1, OV7670_SIZE_DIV2, OV7670_SIZE_DIV4, OV7670_SIZE_DIV8,
          OV7670_SIZE_DIV16} \<longrightarrow>
      (if True \<in> set (take 15 (faults s))
       then fst (size_setter c s) = Inl OSError \<and>
            size_getter (snd (size_setter c s)) = size_getter s
       else fst (size_setter c s) = Inr () \<and>
            size_getter (snd (size_setter c s)) = Some c)) \<and>
   (v \<in> {OV7670_NIGHT_MODE_OFF, OV7670_NIGHT_MODE_2, OV7670_NIGHT_MODE_4,
          OV7670_NIGHT_MODE_8} \<longrightarrow>
      (if True \<in> set (take 2 (faults s))
       then fst (night_setter v s) = Inl OSError \<and>
            night_getter (snd (night_setter v s)) = night_getter s
       else fst (night_setter v s) = Inr () \<and>
            night_getter (snd (night_setter v s)) = v))"
proof -
  have size_result: "fst (size_setter c s) = Inl OSError \<and>
        size_getter (snd (size_setter c s)) = size_getter s"
    if c: "c \<in> {OV7670_SIZE_DIV1, OV7670_SIZE_DIV2, OV7670_SIZE_DIV4, OV7670_SIZE_DIV8,
          OV7670_SIZE_DIV16}" and f: "True \<in> set (take 15 (faults s))"
  proof -
    have ff: "fst (size_setter c s) = Inl OSError"
      by (rule transacts_fault [OF size_setter_transacts [OF c] f])
    then have r: "size_setter c s = (Inl OSError, snd (size_setter c s))"
      by (simp add: prod_eq_iff)
    from size_setter_error_keeps_size [OF r] ff show ?thesis
      by (simp add: size_getter_def)
  qed
  have size_fine: "fst (size_setter c s) = Inr () \<and>
        size_getter (snd (size_setter c s)) = Some c"
    if c: "c \<in> {OV7670_SIZE_DIV1, OV7670_SIZE_DIV2, OV7670_SIZE_DIV4, OV7670_SIZE_DIV8,
          OV7670_SIZE_DIV16}" and f: "True \<notin> set (take 15 (faults s))"
  proof -
    have ff: "fst (size_setter c s) = Inr ()"
      by (rule transacts_no_fault [OF size_setter_transacts [OF c] f])
    then have r: "size_setter c s = (Inr (), snd (size_setter c s))"
      by (simp add: prod_eq_iff)
    from size_setter_ok_stores_size [OF r] ff show ?thesis
      by (simp add: size_getter_def)
  qed
  have night_result: "fst (night_setter v s) = Inl OSError \<and>
        night_getter (snd (night_setter v s)) = night_getter s"
    if v: "v \<in> {OV7670_NIGHT_MODE_OFF, OV7670_NIGHT_MODE_2, OV7670_NIGHT_MODE_4,
          OV7670_NIGHT_MODE_8}" and f: "True \<in> set (take 2 (faults s))"
  proof -
    have ff: "fst (night_setter v s) = Inl OSError"
      by (rule transacts_fault [OF night_setter_transacts [OF v] f])
    then have r: "night_setter v s = (Inl OSError, snd (night_setter v s))"
      by (simp add: prod_eq_iff)
    from night_setter_error_keeps_night [OF r] ff show ?thesis
      by (simp add: night_getter_def)
  qed
  have night_fine: "fst (night_setter v s) = Inr () \<and>
        night_getter (snd (night_setter v s)) = v"
    if v: "v \<in> {OV7670_NIGHT_MODE_OFF, OV7670_NIGHT_MODE_2, OV7670_NIGHT_MODE_4,
          OV7670_NIGHT_MODE_8}" and f: "True \<notin> set (take 2 (faults s))"
  proof -
    have ff: "fst (night_setter v s) = Inr ()"
      by (rule transacts_no_fault [OF night_setter_transacts [OF v] f])
    then have r: "night_setter v s = (Inr (), snd (night_setter v s))"
      by (simp add: prod_eq_iff)
    from night_setter_ok_stores_night [OF r] ff show ?thesis
      by (simp add: night_getter_def)
  qed
  have p1: "size_setter c s = (Inl e, s') \<longrightarrow> size_getter s' = size_getter s"
    by (simp add: size_getter_def size_setter_error_keeps_size)
  have p2: "size_setter c s = (Inr u, s') \<longrightarrow> size_getter s' = Some c"
    by (simp add: size_getter_def size_setter_ok_stores_size)
  have p3: "night_setter v s = (Inl e, s') \<longrightarrow> night_getter s' = night_getter s"
    by (simp add: night_getter_def night_setter_error_keeps_night)
  have p4: "night_setter v s = (Inr u, s') \<longrightarrow> night_getter s' = v"
    by (simp add: night_getter_def night_setter_ok_stores_night)
  have p5: "c \<in> {OV7670_SIZE_DIV1, OV7670_SIZE_DIV2, OV7670_SIZE_DIV4, OV7670_SIZE_DIV8,
          OV7670_SIZE_DIV16} \<longrightarrow>
      (if True \<in> set (take 15 (faults s))
       then fst (size_setter c s) = Inl OSError \<and>
            size_getter (snd (size_setter c s)) = size_getter s
       else fst (size_setter c s) = Inr () \<and>
            size_getter (snd (size_setter c s)) = Some c)"
    using size_result size_fine by (cases "True \<in> set (take 15 (faults s))") simp_all
  have p6: "v \<in> {OV7670_NIGHT_MODE_OFF, OV7670_NIGHT_MODE_2, OV7670_NIGHT_MODE_4,
          OV7670_NIGHT_MODE_8} \<longrightarrow>
      (if True \<in> set (take 2 (faults s))
       then fst (night_setter v s) = Inl OSError \<and>
            night_getter (snd (night_setter v s)) = night_getter s
       else fst (night_setter v s) = Inr () \<and>
            night_getter (snd (night_setter v s)) = v)"
    using night_result night_fine by (cases "True \<in> set (take 2 (faults s))") simp_all
  from p1 p2 p3 p4 p5 p6 show ?thesis
    by (intro conjI)
qed

theorem setters_store_after_all_transactions_witness:
  "OV7670_SIZE_DIV4 \<in> {OV7670_SIZE_DIV1, OV7670_SIZE_DIV2, OV7670_SIZE_DIV4, OV7670_SIZE_DIV8,
      OV7670_SIZE_DIV16} \<and>
   True \<in> set (take 15 (faults (fresh (\<lambda>_. 0) [False, False, True]))) \<and>
   fst (size_setter OV7670_SIZE_DIV4 (fresh (\<lambda>_. 0) [False, False, True])) = Inl OSError \<and>
   size_getter (snd (size_setter OV7670_SIZE_DIV4 (fresh (\<lambda>_. 0) [False, False, True]))) = None \<and>
   trace (snd (size_setter OV7670_SIZE_DIV4 (fresh (\<lambda>_. 0) [False, False, True]))) =
     [BusWrite 0x0C 0x04, BusWrite 0x3E 0x1A] \<and>
   OV7670_NIGHT_MODE_4 \<in> {OV7670_NIGHT_MODE_OFF, OV7670_NIGHT_MODE_2, OV7670_NIGHT_MODE_4,
      OV7670_NIGHT_MODE_8} \<and>
   True \<in> set (take 2 (faults (fresh (\<lambda>_. 0) [False, True]))) \<and>
   fst (night_setter OV7670_NIGHT_MODE_4 (fresh (\<lambda>_. 0) [False, True])) = Inl OSError \<and>
   night_getter (snd (night_setter OV7670_NIGHT_MODE_4 (fresh (\<lambda>_. 0) [False, True]))) = 0 \<and>
   night_setter OV7670_NIGHT_MODE_4 (fresh (\<lambda>_. 0) []) =
     (Inr (), snd (night_setter OV7670_NIGHT_MODE_4 (fresh (\<lambda>_. 0) []))) \<and>
   night_getter (snd (night_setter OV7670_NIGHT_MODE_4 (fresh (\<lambda>_. 0) []))) = 0xC0"
proof -
  have c: "OV7670_SIZE_DIV4 \<in> {OV7670_SIZE_DIV1, OV7670_SIZE_DIV2, OV7670_SIZE_DIV4,
      OV7670_SIZE_DIV8, OV7670_SIZE_DIV16}"
    and m: "OV7670_NIGHT_MODE_4 \<in> {OV7670_NIGHT_MODE_OFF, OV7670_NIGHT_MODE_2,
      OV7670_NIGHT_MODE_4, OV7670_NIGHT_MODE_8}"
    by simp_all
  have f1: "True \<in> set (take 15 (faults (fresh (\<lambda>_. 0) [False, False, True])))"
    and f2: "True \<in> set (take 2 (faults (fresh (\<lambda>_. 0) [False, True])))"
    and f3: "True \<notin> set (take 2 (faults (fresh (\<lambda>_. 0) [])))"
    by (simp_all add: fresh_def)
  have tr: "trace (snd (size_setter OV7670_SIZE_DIV4 (fresh (\<lambda>_. 0) [False, False, True]))) =
     [BusWrite 0x0C 0x04, BusWrite 0x3E 0x1A]"
    by (simp add: size_setter_def window_rows [unfolded ov_consts] frame_control_def fresh_def
        write_register_def read_register_def next_fault_def and_then_def modify_def Let_def
        ov_consts)
  have g: "size_getter (fresh (\<lambda>_. 0) [False, False, True]) = None"
    "night_getter (fresh (\<lambda>_. 0) [False, True]) = 0"
    by (simp_all add: fresh_def size_getter_def night_getter_def)
  from setters_store_after_all_transactions
      [of OV7670_SIZE_DIV4 "fresh (\<lambda>_. 0) [False, False, True]" _ _ _ OV7670_NIGHT_MODE_4]
    setters_store_after_all_transactions
      [of _ "fresh (\<lambda>_. 0) [False, True]" _ _ _ OV7670_NIGHT_MODE_4]
    setters_store_after_all_transactions
      [of _ "fresh (\<lambda>_. 0) []" _ _ _ OV7670_NIGHT_MODE_4]
    c m f1 f2 f3 tr g
  show ?thesis
    by (simp add: prod_eq_iff ov_consts)
qed


end
